theory Spec2Isabelle
  imports
    Complex_Main
    "HOL-Library.Sublist"
    "HOL-Library.Char_ord"
    "HOL-Library.List_Lexorder"
    "HOL-Library.Multiset"
begin

section \<open>The search provider of the autocomplete system\<close>

text \<open>
  This theory embeds \<^verbatim>\<open>chrome/browser/autocomplete/search_provider.cc\<close>: the relevance
  scorers, the match map with its de-duplication, the conversion of the stored results to
  the list of matches, the suggest admissibility test, the parser of the suggest response
  and the entry points \<^verbatim>\<open>Start\<close>, \<^verbatim>\<open>Run\<close>, \<^verbatim>\<open>Stop\<close> and the two completion callbacks.

  Conventions of the embedding.
  \<^item> The object \<^verbatim>\<open>SearchProvider\<close> is a record; every member function takes the record
    and returns the updated one. A data member \<^verbatim>\<open>x_\<close> of the source is the field \<open>m_x\<close>
    (a name may not end with an underscore here).
  \<^item> \<^verbatim>\<open>DCHECK\<close> and \<^verbatim>\<open>NOTREACHED\<close> are modelled as in a build with assertions enabled:
    a failing assertion is fatal and is the \<open>Inl\<close> branch of a result of type
    \<open>error + 'a\<close>.
  \<^item> \<^verbatim>\<open>std::wstring\<close> and \<^verbatim>\<open>string16\<close> are \<open>string\<close>; the order of \<^verbatim>\<open>std::wstring\<close> is
    the lexicographic order of the code units.
  \<^item> \<^verbatim>\<open>int\<close> is \<open>int\<close> and \<^verbatim>\<open>size_t\<close> is \<open>nat\<close>: the sizes that occur are lengths of
    the result vectors, and the one subtraction on \<^verbatim>\<open>size_t\<close> is guarded by the
    assertion in front of it.
  \<^item> A \<^verbatim>\<open>double\<close> is the real number it denotes, and an operation on doubles is the exact
    operation followed by the rounding of IEEE 754 to the nearest double.
  \<^item> What the file uses from headers and files that are not part of the sources at hand
    is collected in the record \<open>Env\<close> as parameters, or modelled from the specification
    where that is said.
\<close>

subsection \<open>Data\<close>

datatype error = NotReached | DCheckFailed | NullPointer

text \<open>\<^verbatim>\<open>AutocompleteInput::Type\<close>, with the enumerators the file mentions.\<close>

datatype InputType = INVALID | UNKNOWN | REQUESTED_URL | URL | QUERY | FORCED_QUERY

text \<open>
  \<^verbatim>\<open>url_parse::Parsed\<close>: each component is represented by its length \<^verbatim>\<open>len\<close>, which is
  \<open>-1\<close> for an absent component; \<^verbatim>\<open>is_nonempty()\<close> is \<^verbatim>\<open>len > 0\<close>.
\<close>

record Parsed =
  username :: int
  port :: int
  path :: int
  query :: int
  ref :: int

definition is_nonempty :: "int \<Rightarrow> bool" where
  "is_nonempty len = (len > 0)"

record AutocompleteInput =
  input_text :: string
  input_type :: InputType
  scheme :: string
  parts :: Parsed
  prevent_inline_autocomplete :: bool
  synchronous_only :: bool

text \<open>
  \<^verbatim>\<open>TemplateURL\<close>: \<open>url_supports_replacement\<close> is \<^verbatim>\<open>url()->SupportsReplacement()\<close> of a
  provider with a search URL, \<open>suggestions_url\<close> is \<open>None\<close> for a provider without suggest
  URL and otherwise holds \<^verbatim>\<open>suggestions_url()->SupportsReplacement()\<close>.
\<close>

record TemplateURL =
  template_url_id :: nat
  short_name :: string
  keyword :: string
  url_supports_replacement :: bool
  suggestions_url :: "bool option"

datatype ACStyle = NONE | STYLE_URL | MATCH | DIM

datatype MatchType = SEARCH_WHAT_YOU_TYPED | SEARCH_HISTORY | SEARCH_SUGGEST | NAVSUGGEST

datatype PageTransition = TYPED | KEYWORD | GENERATED

text \<open>
  The destination of a match: for a search match the arguments given to
  \<^verbatim>\<open>ReplaceSearchTerms\<close> (provider, query, accepted suggestion, input text), for a
  navigation match the URL.
\<close>

datatype Destination =
    NoDestination
  | SearchURL nat string int string
  | NavigationURL string

record AutocompleteMatch =
  relevance :: int
  match_type :: MatchType
  contents :: string
  contents_class :: "(nat \<times> ACStyle) list"
  description :: string
  description_class :: "(nat \<times> ACStyle) list"
  fill_into_edit :: string
  inline_autocomplete_offset :: "nat option"
  destination_url :: Destination
  transition :: PageTransition
  template_url :: "TemplateURL option"
  starred :: bool

text \<open>The constructor \<^verbatim>\<open>AutocompleteMatch(provider, relevance, deletable, type)\<close>.\<close>

definition new_match :: "int \<Rightarrow> MatchType \<Rightarrow> AutocompleteMatch" where
  "new_match r t =
     \<lparr>relevance = r, match_type = t, contents = [], contents_class = [],
      description = [], description_class = [], fill_into_edit = [],
      inline_autocomplete_offset = None, destination_url = NoDestination,
      transition = TYPED, template_url = None, starred = False\<rparr>"

record Profile =
  IsOffTheRecord :: bool
  kSearchSuggestEnabled :: bool
  GetDefaultSearchProvider :: "TemplateURL option"

text \<open>
  \<^verbatim>\<open>SearchProvider::Providers\<close>: the two pointers (an \<open>option\<close>, \<open>None\<close> for \<^verbatim>\<open>NULL\<close>) and
  the two cached copies.
\<close>

record Providers =
  m_default_provider :: "TemplateURL option"
  m_cached_default_provider :: TemplateURL
  m_keyword_provider :: "TemplateURL option"
  m_cached_keyword_provider :: TemplateURL

record NavigationResult =
  url :: string
  site_name :: string

text \<open>A history result: the search term and the time of the visit in microseconds.\<close>

record KeywordSearchTermVisit =
  "term" :: string
  time :: int

text \<open>\<^verbatim>\<open>Value\<close> of \<^verbatim>\<open>base/values.h\<close>, the result of the JSON deserializer.\<close>

datatype Value =
    NullValue
  | BooleanValue bool
  | IntegerValue int
  | RealValue real
  | StringValue string
  | BinaryValue
  | DictionaryValue "(string \<times> Value) list"
  | ListValue "Value list"

record SearchProvider =
  m_matches :: "AutocompleteMatch list"
  m_done :: bool
  m_profile :: "Profile option"
  m_input :: AutocompleteInput
  m_keyword_input_text :: string
  m_providers :: Providers
  m_have_history_results :: bool
  m_history_request_pending :: bool
  m_suggest_results_pending :: int
  m_have_suggest_results :: bool
  m_keyword_history_results :: "KeywordSearchTermVisit list"
  m_default_history_results :: "KeywordSearchTermVisit list"
  m_keyword_suggest_results :: "string list"
  m_default_suggest_results :: "string list"
  m_keyword_navigation_results :: "NavigationResult list"
  m_default_navigation_results :: "NavigationResult list"
  m_history_request_consumer :: "(nat \<times> nat) list"
  next_handle :: nat
  timer_running :: bool
  m_keyword_fetcher :: "(nat \<times> nat \<times> string) option"
  m_default_fetcher :: "(nat \<times> nat \<times> string) option"
  next_fetcher :: nat
  listener_updates :: "bool list"

text \<open>
  In \<open>SearchProvider\<close>, \<open>m_history_request_consumer\<close> is the list of the pending requests
  of the \<^verbatim>\<open>CancelableRequestConsumer\<close>, each a handle with its client data (the provider
  id); a fetcher is its identity, the id it was created with and the text it asks for;
  \<open>listener_updates\<close> records the calls of \<^verbatim>\<open>listener_->OnProviderUpdate\<close>.
\<close>

text \<open>
  The parameters: what the file takes from code that is not among the sources at hand.
  \<^item> \<open>kMaxMatches\<close>: the constant \<^verbatim>\<open>AutocompleteProvider::kMaxMatches\<close>.
  \<^item> \<open>ToLower\<close>: \<^verbatim>\<open>l10n_util::ToLower\<close>.
  \<^item> \<open>MoreRelevant\<close>: the comparator \<^verbatim>\<open>AutocompleteMatch::MoreRelevant\<close>.
  \<^item> \<open>is_primary_provider\<close>: \<^verbatim>\<open>Providers::is_primary_provider\<close>.
  \<^item> \<open>Now\<close>: \<^verbatim>\<open>Time::Now()\<close> in microseconds.
  \<^item> \<open>pow\<close>: \<^verbatim>\<open>std::pow\<close> of the C library on two doubles.
  \<^item> \<open>partial_sort\<close>: \<^verbatim>\<open>std::partial_sort\<close> of the C++ library on a vector of matches,
    given the comparator, the length \<^verbatim>\<open>middle - first\<close> of the front range and the vector;
    the result is the vector as the call leaves it.
  \<^item> \<open>IsBookmarked\<close>: the bookmark lookup behind \<^verbatim>\<open>UpdateStarredStateOfMatches\<close>.
  \<^item> \<open>SearchDescription\<close>: the localized string
    \<^verbatim>\<open>IDS_AUTOCOMPLETE_SEARCH_DESCRIPTION\<close> for a provider name; \<open>EmptyKeywordValue\<close>:
    the string \<^verbatim>\<open>IDS_EMPTY_KEYWORD_VALUE\<close>.
  \<^item> \<open>FixupURL\<close>: \<^verbatim>\<open>URLFixerUpper::FixupURL\<close> followed by \<^verbatim>\<open>is_valid\<close>, \<open>None\<close> for an
    invalid URL.
  \<^item> \<open>StringForURLDisplay\<close>, \<open>ClassifyMatchInString\<close>,
    \<open>FormattedStringWithEquivalentMeaning\<close>: the formatting helpers of
    \<^verbatim>\<open>NavigationToMatch\<close>.
  \<^item> \<open>GetSubstitutingTemplateURLForInput\<close>: the keyword lookup of \<^verbatim>\<open>KeywordProvider\<close>,
    which returns the provider and the remaining input.
  \<^item> \<open>SupportsReplacement\<close>: the static \<^verbatim>\<open>TemplateURL::SupportsReplacement\<close> on a pointer.
  \<^item> \<open>NO_SUGGESTIONS_AVAILABLE\<close>, \<open>NO_SUGGESTION_CHOSEN\<close>: the two constants of
    \<^verbatim>\<open>TemplateURLRef\<close>.
\<close>

record Env =
  kMaxMatches :: nat
  ToLower :: "string \<Rightarrow> string"
  MoreRelevant :: "AutocompleteMatch \<Rightarrow> AutocompleteMatch \<Rightarrow> bool"
  is_primary_provider :: "Providers \<Rightarrow> bool \<Rightarrow> bool"
  Now :: int
  pow :: "real \<Rightarrow> real \<Rightarrow> real"
  partial_sort ::
    "(AutocompleteMatch \<Rightarrow> AutocompleteMatch \<Rightarrow> bool) \<Rightarrow> nat \<Rightarrow> AutocompleteMatch list \<Rightarrow>
     AutocompleteMatch list"
  IsBookmarked :: "Destination \<Rightarrow> bool"
  SearchDescription :: "string \<Rightarrow> string"
  EmptyKeywordValue :: string
  FixupURL :: "string \<Rightarrow> string option"
  StringForURLDisplay :: "string \<Rightarrow> string \<Rightarrow> string"
  ClassifyMatchInString :: "string \<Rightarrow> string \<Rightarrow> ACStyle \<Rightarrow> (nat \<times> ACStyle) list"
  FormattedStringWithEquivalentMeaning :: "string \<Rightarrow> string \<Rightarrow> string"
  GetSubstitutingTemplateURLForInput ::
    "Profile \<Rightarrow> AutocompleteInput \<Rightarrow> TemplateURL option \<times> string"
  SupportsReplacement :: "TemplateURL option \<Rightarrow> bool"
  NO_SUGGESTIONS_AVAILABLE :: int
  NO_SUGGESTION_CHOSEN :: int

subsection \<open>Doubles\<close>

text \<open>
  The rounding of IEEE 754 for the format binary64 in the mode that C++ programs run in:
  to the nearest number with a significand of 53 bits, a tie going to the even
  significand. \<open>round_nearest_even\<close> rounds a real to an integer in this way, and
  \<open>round_double\<close> rounds a real \<open>x\<close> to a double: with
  \<open>2 powi e \<le> \<bar>x\<bar>\<close> and \<open>\<bar>x\<bar> < 2 powi (e + 1)\<close> the doubles around \<open>x\<close> are the multiples
  of \<open>2 powi (e - 52)\<close>. The range of the exponent is not modelled: the numbers that are
  rounded in this file are zero or lie between a millionth and \<open>2 ^ 63\<close> in absolute
  value, far from overflow and underflow. A literal of the source is the rounding of its
  decimal value;
  \<^verbatim>\<open>6.5\<close>, \<^verbatim>\<open>0.\<close> and the \<^verbatim>\<open>1000000\<close> of \<^verbatim>\<open>kMicrosecondsPerSecond\<close> are doubles as they stand.
\<close>

definition round_nearest_even :: "real \<Rightarrow> int" where
  "round_nearest_even q =
     (let f = \<lfloor>q\<rfloor>
      in if q - of_int f < 1 / 2 then f
         else if 1 / 2 < q - of_int f then f + 1
         else if even f then f else f + 1)"

definition round_double :: "real \<Rightarrow> real" where
  "round_double x =
     (if x = 0 then 0
      else let e = \<lfloor>log 2 \<bar>x\<bar>\<rfloor>;
               ulp = 2 powi (e - 52)
           in of_int (round_nearest_even (x / ulp)) * ulp)"

text \<open>
  The conversion of a 64-bit integer to a double, and the quotient and the product of two
  doubles.
\<close>

definition double_of_int :: "int \<Rightarrow> real" where
  "double_of_int i = round_double (of_int i)"

definition double_divide :: "real \<Rightarrow> real \<Rightarrow> real" where
  "double_divide x y = round_double (x / y)"

definition double_times :: "real \<Rightarrow> real \<Rightarrow> real" where
  "double_times x y = round_double (x * y)"

subsection \<open>Providers\<close>

definition Providers_Set ::
  "TemplateURL option \<Rightarrow> TemplateURL option \<Rightarrow> Providers \<Rightarrow> Providers" where
  "Providers_Set default_provider keyword_provider p =
     (let p1 = p\<lparr>m_default_provider := default_provider\<rparr>;
          p2 = (case default_provider of
                  None \<Rightarrow> p1
                | Some d \<Rightarrow> p1\<lparr>m_cached_default_provider := d\<rparr>);
          p3 = p2\<lparr>m_keyword_provider := keyword_provider\<rparr>
      in case keyword_provider of
           None \<Rightarrow> p3
         | Some k \<Rightarrow> p3\<lparr>m_cached_keyword_provider := k\<rparr>)"

text \<open>
  Modelled from the spec: the accessors of \<^verbatim>\<open>Providers\<close> declared in
  \<^verbatim>\<open>search_provider.h\<close>, which is missing. A provider is valid when its pointer is set
  ("an alternate (keyword) provider is active for this input"); it is valid for suggest
  when it also "exposes a remote-suggestion endpoint"; \<open>equals\<close> compares both pointers.
\<close>

definition valid_default_provider :: "Providers \<Rightarrow> bool" where
  "valid_default_provider p = (m_default_provider p \<noteq> None)"

definition valid_keyword_provider :: "Providers \<Rightarrow> bool" where
  "valid_keyword_provider p = (m_keyword_provider p \<noteq> None)"

definition valid_suggest_for_default_provider :: "Providers \<Rightarrow> bool" where
  "valid_suggest_for_default_provider p =
     (m_default_provider p \<noteq> None \<and> suggestions_url (m_cached_default_provider p) \<noteq> None)"

definition valid_suggest_for_keyword_provider :: "Providers \<Rightarrow> bool" where
  "valid_suggest_for_keyword_provider p =
     (m_keyword_provider p \<noteq> None \<and> suggestions_url (m_cached_keyword_provider p) \<noteq> None)"

definition Providers_equals ::
  "Providers \<Rightarrow> TemplateURL option \<Rightarrow> TemplateURL option \<Rightarrow> bool" where
  "Providers_equals p default_provider keyword_provider =
     (default_provider = m_default_provider p \<and> keyword_provider = m_keyword_provider p)"

subsection \<open>Relevance\<close>

definition CalculateRelevanceForWhatYouTyped :: "SearchProvider \<Rightarrow> error + int" where
  "CalculateRelevanceForWhatYouTyped st =
     (if valid_keyword_provider (m_providers st) then Inr 250
      else case input_type (m_input st) of
             UNKNOWN \<Rightarrow> Inr 1300
           | QUERY \<Rightarrow> Inr 1300
           | FORCED_QUERY \<Rightarrow> Inr 1300
           | REQUESTED_URL \<Rightarrow> Inr 1150
           | URL \<Rightarrow> Inr 850
           | INVALID \<Rightarrow> Inl NotReached)"

text \<open>\<^verbatim>\<open>static_cast<int>\<close> of a \<^verbatim>\<open>double\<close> truncates toward zero.\<close>

definition static_cast_int :: "real \<Rightarrow> int" where
  "static_cast_int x = (if 0 \<le> x then \<lfloor>x\<rfloor> else \<lceil>x\<rceil>)"

text \<open>
  Modelled from the spec: \<^verbatim>\<open>TimeDelta::InSecondsF\<close> of \<^verbatim>\<open>base/time.h\<close>, which is missing,
  gives the "wall-clock seconds since the historical visit": the difference of two times,
  a 64-bit count of microseconds, is converted to a double and divided by the number of
  microseconds in a second.
\<close>

definition InSecondsF :: "int \<Rightarrow> real" where
  "InSecondsF delta = double_divide (double_of_int delta) 1000000"

text \<open>
  The two local constants of \<^verbatim>\<open>CalculateRelevanceForHistory\<close>. The exponent is the
  literal \<^verbatim>\<open>0.3\<close>, which is not a double as it stands.
\<close>

definition elapsed_time :: "Env \<Rightarrow> int \<Rightarrow> real" where
  "elapsed_time env t = max (InSecondsF (Now env - t)) 0"

definition score_discount :: "Env \<Rightarrow> real \<Rightarrow> int" where
  "score_discount env elapsed =
     static_cast_int (double_times 6.5 (pow env elapsed (round_double 0.3)))"

definition history_base_score :: "Env \<Rightarrow> SearchProvider \<Rightarrow> bool \<Rightarrow> int" where
  "history_base_score env st is_keyword =
     (if \<not> is_primary_provider env (m_providers st) is_keyword then 200
      else if input_type (m_input st) = URL then 750 else 1050)"

definition CalculateRelevanceForHistory ::
  "Env \<Rightarrow> SearchProvider \<Rightarrow> int \<Rightarrow> bool \<Rightarrow> int" where
  "CalculateRelevanceForHistory env st t is_keyword =
     max 0 (history_base_score env st is_keyword - score_discount env (elapsed_time env t))"

definition suggestion_base_score :: "Env \<Rightarrow> SearchProvider \<Rightarrow> bool \<Rightarrow> int" where
  "suggestion_base_score env st is_keyword =
     (if \<not> is_primary_provider env (m_providers st) is_keyword then 100
      else if input_type (m_input st) = URL then 300 else 600)"

definition CalculateRelevanceForSuggestion ::
  "Env \<Rightarrow> SearchProvider \<Rightarrow> nat \<Rightarrow> nat \<Rightarrow> bool \<Rightarrow> error + int" where
  "CalculateRelevanceForSuggestion env st num_results result_number is_keyword =
     (if \<not> result_number < num_results then Inl DCheckFailed
      else Inr (suggestion_base_score env st is_keyword +
                int (num_results - 1 - result_number)))"

definition CalculateRelevanceForNavigation ::
  "Env \<Rightarrow> SearchProvider \<Rightarrow> nat \<Rightarrow> nat \<Rightarrow> bool \<Rightarrow> error + int" where
  "CalculateRelevanceForNavigation env st num_results result_number is_keyword =
     (if \<not> result_number < num_results then Inl DCheckFailed
      else Inr ((if is_primary_provider env (m_providers st) is_keyword then 800 else 150) +
                int (num_results - 1 - result_number)))"

subsection \<open>Errors\<close>

definition ebind :: "error + 'a \<Rightarrow> ('a \<Rightarrow> error + 'b) \<Rightarrow> error + 'b" where
  "ebind m f = (case m of Inl e \<Rightarrow> Inl e | Inr x \<Rightarrow> f x)"

text \<open>A loop over a vector whose body may fail: the first failure ends it.\<close>

fun foldl_err :: "('s \<Rightarrow> 'a \<Rightarrow> error + 's) \<Rightarrow> 's \<Rightarrow> 'a list \<Rightarrow> error + 's" where
  "foldl_err f s [] = Inr s"
| "foldl_err f s (x # xs) = ebind (f s x) (\<lambda>s'. foldl_err f s' xs)"

subsection \<open>The match map\<close>

text \<open>
  \<^verbatim>\<open>MatchMap\<close> is a \<^verbatim>\<open>std::map\<close> from \<^verbatim>\<open>std::wstring\<close> to \<^verbatim>\<open>AutocompleteMatch\<close>: an
  association list kept in the strictly increasing order of its keys, which is the order
  in which the map is iterated. \<open>map_insert\<close> is \<^verbatim>\<open>std::map::insert\<close>: it returns the map,
  the value stored under the key afterwards (\<^verbatim>\<open>i.first->second\<close>) and whether the pair
  was inserted (\<^verbatim>\<open>i.second\<close>); an existing entry is left as it is. \<open>map_assign\<close> is the
  assignment through the iterator.
\<close>

type_synonym MatchMap = "(string \<times> AutocompleteMatch) list"

fun map_insert ::
  "string \<Rightarrow> AutocompleteMatch \<Rightarrow> MatchMap \<Rightarrow> MatchMap \<times> AutocompleteMatch \<times> bool" where
  "map_insert k v [] = ([(k, v)], v, True)"
| "map_insert k v ((k', v') # rest) =
     (if k < k' then ((k, v) # (k', v') # rest, v, True)
      else if k = k' then ((k', v') # rest, v', False)
      else (case map_insert k v rest of
              (rest', old, inserted) \<Rightarrow> ((k', v') # rest', old, inserted)))"

fun map_assign :: "string \<Rightarrow> AutocompleteMatch \<Rightarrow> MatchMap \<Rightarrow> MatchMap" where
  "map_assign k v [] = []"
| "map_assign k v ((k', v') # rest) =
     (if k = k' then (k', v) # rest else (k', v') # map_assign k v rest)"

text \<open>\<^verbatim>\<open>std::wstring::find\<close>: the first position at which the argument occurs.\<close>

fun find_from :: "string \<Rightarrow> string \<Rightarrow> nat \<Rightarrow> nat option" where
  "find_from [] needle i = (if needle = [] then Some i else None)"
| "find_from (c # cs) needle i =
     (if prefix needle (c # cs) then Some i else find_from cs needle (Suc i))"

definition find_str :: "string \<Rightarrow> string \<Rightarrow> nat option" where
  "find_str s needle = find_from s needle 0"

text \<open>
  The first part of \<^verbatim>\<open>AddMatchToMap\<close>, which builds the match for a query string.
\<close>

definition QueryToMatch ::
  "Env \<Rightarrow> SearchProvider \<Rightarrow> string \<Rightarrow> int \<Rightarrow> MatchType \<Rightarrow> int \<Rightarrow> bool \<Rightarrow>
   AutocompleteMatch" where
  "QueryToMatch env st query_string rel type accepted_suggestion is_keyword =
     (let text = (if is_keyword then m_keyword_input_text st else input_text (m_input st));
          provider = (if is_keyword then m_cached_keyword_provider (m_providers st)
                      else m_cached_default_provider (m_providers st));
          m0 = new_match rel type;
          m1 = (if text \<noteq> query_string then
                  m0\<lparr>contents := query_string,
                     contents_class :=
                       (case find_str query_string text of
                          None \<Rightarrow> [(0, MATCH)]
                        | Some input_position \<Rightarrow>
                            (if input_position \<noteq> 0 then [(0, NONE)] else []) @
                            [(input_position, DIM)] @
                            (let next_fragment_position = input_position + length text
                             in if next_fragment_position < length query_string
                                then [(next_fragment_position, NONE)] else []))\<rparr>
                else
                  m0\<lparr>contents := query_string,
                     contents_class := [(0, NONE)],
                     description := SearchDescription env (short_name provider),
                     description_class := [(0, DIM)]\<rparr>);
          forced = (input_type (m_input st) = FORCED_QUERY);
          search_start = (if forced then 1 else 0);
          m2 = (if forced then m1\<lparr>fill_into_edit := ''?''\<rparr> else m1);
          m3 = (if is_keyword then
                  m2\<lparr>fill_into_edit :=
                       fill_into_edit m2 @
                       keyword (m_cached_keyword_provider (m_providers st)) @ '' '',
                     template_url := Some (m_cached_keyword_provider (m_providers st))\<rparr>
                else m2);
          m4 = m3\<lparr>fill_into_edit := fill_into_edit m3 @ query_string\<rparr>;
          m5 = (if \<not> prevent_inline_autocomplete (m_input st) \<and>
                   take (length text) (drop search_start (fill_into_edit m4)) = text
                then m4\<lparr>inline_autocomplete_offset := Some (search_start + length text)\<rparr>
                else m4)
      in m5\<lparr>destination_url :=
              SearchURL (template_url_id provider) query_string accepted_suggestion text,
            transition := (if is_keyword then KEYWORD else GENERATED)\<rparr>)"

definition AddMatchToMap ::
  "Env \<Rightarrow> SearchProvider \<Rightarrow> string \<Rightarrow> int \<Rightarrow> MatchType \<Rightarrow> int \<Rightarrow> bool \<Rightarrow> MatchMap \<Rightarrow>
   error + MatchMap" where
  "AddMatchToMap env st query_string rel type accepted_suggestion is_keyword mm =
     (let provider = (if is_keyword then m_cached_keyword_provider (m_providers st)
                      else m_cached_default_provider (m_providers st));
          match = QueryToMatch env st query_string rel type accepted_suggestion is_keyword
      in if \<not> url_supports_replacement provider then Inl DCheckFailed
         else (case map_insert (ToLower env query_string) match mm of
                 (map', stored, inserted) \<Rightarrow>
                   if \<not> inserted \<and> relevance match > relevance stored
                   then Inr (map_assign (ToLower env query_string) match map')
                   else Inr map'))"

definition AddHistoryResultsToMap ::
  "Env \<Rightarrow> SearchProvider \<Rightarrow> KeywordSearchTermVisit list \<Rightarrow> bool \<Rightarrow> int \<Rightarrow> MatchMap \<Rightarrow>
   error + MatchMap" where
  "AddHistoryResultsToMap env st results is_keyword did_not_accept_suggestion mm =
     foldl_err
       (\<lambda>m r. AddMatchToMap env st (term r)
                (CalculateRelevanceForHistory env st (time r) is_keyword)
                SEARCH_HISTORY did_not_accept_suggestion is_keyword m)
       mm results"

definition AddSuggestResultsToMap ::
  "Env \<Rightarrow> SearchProvider \<Rightarrow> string list \<Rightarrow> bool \<Rightarrow> int \<Rightarrow> MatchMap \<Rightarrow> error + MatchMap" where
  "AddSuggestResultsToMap env st suggest_results is_keyword did_not_accept_suggestion mm =
     foldl_err
       (\<lambda>m (i, s).
          ebind (CalculateRelevanceForSuggestion env st (length suggest_results) i is_keyword)
            (\<lambda>rel. AddMatchToMap env st s rel SEARCH_SUGGEST (int i) is_keyword m))
       mm (enumerate 0 suggest_results)"

subsection \<open>Navigation results\<close>

definition NavigationToMatch ::
  "Env \<Rightarrow> SearchProvider \<Rightarrow> NavigationResult \<Rightarrow> int \<Rightarrow> bool \<Rightarrow> AutocompleteMatch" where
  "NavigationToMatch env st navigation rel is_keyword =
     (let text = (if is_keyword then m_keyword_input_text st else input_text (m_input st));
          c = StringForURLDisplay env (url navigation) text
      in (new_match rel NAVSUGGEST)
           \<lparr>destination_url := NavigationURL (url navigation),
            contents := c,
            contents_class := ClassifyMatchInString env text c STYLE_URL,
            description := site_name navigation,
            description_class := ClassifyMatchInString env text (site_name navigation) NONE,
            fill_into_edit :=
              (if input_type (m_input st) = FORCED_QUERY then ''?'' else []) @
              FormattedStringWithEquivalentMeaning env (url navigation) c\<rparr>)"

definition AddNavigationResultsToMatches ::
  "Env \<Rightarrow> NavigationResult list \<Rightarrow> bool \<Rightarrow> SearchProvider \<Rightarrow> error + SearchProvider" where
  "AddNavigationResultsToMatches env navigation_results is_keyword st =
     (case navigation_results of
        [] \<Rightarrow> Inr st
      | front # _ \<Rightarrow>
          (let num_results = (if is_keyword then length (m_keyword_navigation_results st)
                              else length (m_default_navigation_results st))
           in ebind (CalculateRelevanceForNavigation env st num_results 0 is_keyword)
                (\<lambda>rel. Inr (st\<lparr>m_matches :=
                                 m_matches st @
                                 [NavigationToMatch env st front rel is_keyword]\<rparr>))))"

subsection \<open>From the stored results to the matches\<close>

text \<open>
  Modelled from the spec: \<^verbatim>\<open>AutocompleteProvider::UpdateStarredStateOfMatches\<close>, which is
  missing: "recompute any starred/bookmarked presentation flags against current bookmark
  state".
\<close>

definition UpdateStarredStateOfMatches ::
  "Env \<Rightarrow> AutocompleteMatch list \<Rightarrow> AutocompleteMatch list" where
  "UpdateStarredStateOfMatches env ms =
     map (\<lambda>m. m\<lparr>starred := IsBookmarked env (destination_url m)\<rparr>) ms"

text \<open>
  The first half of \<^verbatim>\<open>ConvertResultsToAutocompleteMatches\<close>: the map of the query
  matches.
\<close>

definition ConvertResultsToMatchMap :: "Env \<Rightarrow> SearchProvider \<Rightarrow> error + MatchMap" where
  "ConvertResultsToMatchMap env st =
     (let did_not_accept_keyword_suggestion =
            (if m_keyword_suggest_results st = [] then NO_SUGGESTIONS_AVAILABLE env
             else NO_SUGGESTION_CHOSEN env);
          did_not_accept_default_suggestion =
            (if m_default_suggest_results st = [] then NO_SUGGESTIONS_AVAILABLE env
             else NO_SUGGESTION_CHOSEN env)
      in ebind (if valid_default_provider (m_providers st)
                then ebind (CalculateRelevanceForWhatYouTyped st)
                       (\<lambda>rel. AddMatchToMap env st (input_text (m_input st)) rel
                                SEARCH_WHAT_YOU_TYPED did_not_accept_default_suggestion
                                False [])
                else Inr [])
        (\<lambda>map1. ebind (AddHistoryResultsToMap env st (m_keyword_history_results st) True
                         did_not_accept_keyword_suggestion map1)
        (\<lambda>map2. ebind (AddHistoryResultsToMap env st (m_default_history_results st) False
                         did_not_accept_default_suggestion map2)
        (\<lambda>map3. ebind (AddSuggestResultsToMap env st (m_keyword_suggest_results st) True
                         did_not_accept_keyword_suggestion map3)
        (\<lambda>map4. AddSuggestResultsToMap env st (m_default_suggest_results st) False
                  did_not_accept_default_suggestion map4)))))"

text \<open>
  The second half without the last line: the matches of the map in the order of the map,
  the navigation matches behind them (\<open>CombinedMatches\<close>), then the sort and the cut
  (\<open>SortAndCull\<close>). \<^verbatim>\<open>std::partial_sort\<close> permutes the vector in place, so the size that
  the source tests after the call is the length of what the call has left.
\<close>

definition CombinedMatches :: "Env \<Rightarrow> SearchProvider \<Rightarrow> error + SearchProvider" where
  "CombinedMatches env st =
     ebind (ConvertResultsToMatchMap env st)
       (\<lambda>mm. ebind (AddNavigationResultsToMatches env (m_keyword_navigation_results st) True
                       (st\<lparr>m_matches := List.map snd mm\<rparr>))
       (\<lambda>st1. AddNavigationResultsToMatches env (m_default_navigation_results st1) False
                st1))"

definition SortAndCull :: "Env \<Rightarrow> AutocompleteMatch list \<Rightarrow> AutocompleteMatch list" where
  "SortAndCull env ms =
     (let max_total_matches = kMaxMatches env + 1;
          sorted = partial_sort env (MoreRelevant env)
                     (min max_total_matches (length ms)) ms
      in if length sorted > max_total_matches then take max_total_matches sorted
         else sorted)"

definition ConvertResultsToAutocompleteMatches ::
  "Env \<Rightarrow> SearchProvider \<Rightarrow> error + SearchProvider" where
  "ConvertResultsToAutocompleteMatches env st =
     ebind (CombinedMatches env st)
       (\<lambda>st1. let st2 = st1\<lparr>m_matches :=
                             UpdateStarredStateOfMatches env
                               (SortAndCull env (m_matches st1))\<rparr>
              in Inr (st2\<lparr>m_done := (\<not> m_history_request_pending st2 \<and>
                                      m_suggest_results_pending st2 = 0)\<rparr>))"

subsection \<open>Stopping\<close>

definition StopHistory :: "SearchProvider \<Rightarrow> SearchProvider" where
  "StopHistory st =
     st\<lparr>m_history_request_consumer := [],
        m_history_request_pending := False,
        m_keyword_history_results := [],
        m_default_history_results := [],
        m_have_history_results := False\<rparr>"

definition StopSuggest :: "SearchProvider \<Rightarrow> SearchProvider" where
  "StopSuggest st =
     st\<lparr>m_suggest_results_pending := 0,
        timer_running := False,
        m_keyword_fetcher := None,
        m_default_fetcher := None,
        m_keyword_suggest_results := [],
        m_default_suggest_results := [],
        m_keyword_navigation_results := [],
        m_default_navigation_results := [],
        m_have_suggest_results := False\<rparr>"

definition Stop :: "SearchProvider \<Rightarrow> SearchProvider" where
  "Stop st = (StopSuggest (StopHistory st))\<lparr>m_done := True\<rparr>"

subsection \<open>The suggest admissibility test\<close>

definition IsQuerySuitableForSuggest :: "SearchProvider \<Rightarrow> error + bool" where
  "IsQuerySuitableForSuggest st =
     (case m_profile st of
        None \<Rightarrow> Inl NullPointer
      | Some profile \<Rightarrow>
          if IsOffTheRecord profile \<or>
             (\<not> valid_suggest_for_keyword_provider (m_providers st) \<and>
              \<not> valid_suggest_for_default_provider (m_providers st)) \<or>
             \<not> kSearchSuggestEnabled profile
          then Inr False
          else if input_type (m_input st) = FORCED_QUERY then Inr True
          else if scheme (m_input st) \<noteq> ''http'' \<and> scheme (m_input st) \<noteq> ''https'' \<and>
                  scheme (m_input st) \<noteq> ''ftp''
          then Inr (input_type (m_input st) = QUERY)
          else if is_nonempty (username (parts (m_input st))) \<or>
                  is_nonempty (port (parts (m_input st))) \<or>
                  is_nonempty (query (parts (m_input st))) \<or>
                  is_nonempty (ref (parts (m_input st)))
          then Inr False
          else if scheme (m_input st) = ''https'' \<and> is_nonempty (path (parts (m_input st)))
          then Inr False
          else Inr True)"

subsection \<open>Starting the queries\<close>

definition ScheduleHistoryQuery :: "nat \<Rightarrow> string \<Rightarrow> SearchProvider \<Rightarrow> error + SearchProvider" where
  "ScheduleHistoryQuery search_id text st =
     (if text = [] then Inl DCheckFailed
      else case m_profile st of
             None \<Rightarrow> Inl NullPointer
           | Some profile \<Rightarrow>
               Inr (st\<lparr>m_history_request_consumer :=
                          m_history_request_consumer st @ [(next_handle st, search_id)],
                        next_handle := Suc (next_handle st),
                        m_history_request_pending := True\<rparr>))"

definition StartOrStopHistoryQuery :: "bool \<Rightarrow> SearchProvider \<Rightarrow> error + SearchProvider" where
  "StartOrStopHistoryQuery minimal_changes st =
     (if minimal_changes \<and>
         (m_have_history_results st \<or> (\<not> m_done st \<and> \<not> synchronous_only (m_input st)))
      then Inr st
      else let st1 = StopHistory st
           in if synchronous_only (m_input st1) then Inr st1
              else ebind (if valid_keyword_provider (m_providers st1)
                          then ScheduleHistoryQuery
                                 (template_url_id (m_cached_keyword_provider (m_providers st1)))
                                 (m_keyword_input_text st1) st1
                          else Inr st1)
                     (\<lambda>st2. if valid_default_provider (m_providers st2)
                             then ScheduleHistoryQuery
                                    (template_url_id (m_cached_default_provider (m_providers st2)))
                                    (input_text (m_input st2)) st2
                             else Inr st2))"

definition StartOrStopSuggestQuery :: "bool \<Rightarrow> SearchProvider \<Rightarrow> error + SearchProvider" where
  "StartOrStopSuggestQuery minimal_changes st =
     ebind (IsQuerySuitableForSuggest st)
       (\<lambda>suitable.
          if \<not> suitable then Inr (StopSuggest st)
          else if minimal_changes \<and>
                  (m_have_suggest_results st \<or>
                   (\<not> m_done st \<and> \<not> synchronous_only (m_input st)))
          then Inr st
          else let st1 = StopSuggest st
               in if synchronous_only (m_input st1) then Inr st1
                  else Inr (st1\<lparr>m_suggest_results_pending := 1, timer_running := True\<rparr>))"

text \<open>
  The placeholder match that \<^verbatim>\<open>Start\<close> makes for an empty input: a default-constructed
  match with its contents and description set.
\<close>

definition placeholder_match :: "Env \<Rightarrow> TemplateURL \<Rightarrow> AutocompleteMatch" where
  "placeholder_match env default_provider =
     (new_match 0 SEARCH_WHAT_YOU_TYPED)
       \<lparr>contents := EmptyKeywordValue env,
        contents_class := [(0, NONE)],
        description := SearchDescription env (short_name default_provider),
        description_class := [(0, DIM)]\<rparr>"

definition Start ::
  "Env \<Rightarrow> AutocompleteInput \<Rightarrow> bool \<Rightarrow> SearchProvider \<Rightarrow> error + SearchProvider" where
  "Start env input minimal_changes st =
     (let st0 = st\<lparr>m_matches := []\<rparr>
      in case m_profile st0 of
           None \<Rightarrow> Inr (Stop st0)
         | Some profile \<Rightarrow>
             if input_type input = INVALID then Inr (Stop st0)
             else
               (case GetSubstitutingTemplateURLForInput env profile input of
                  (found, remaining) \<Rightarrow>
                    let st1 = st0\<lparr>m_keyword_input_text := remaining\<rparr>;
                        keyword_provider0 =
                          (if \<not> SupportsReplacement env found \<or> remaining = [] then None
                           else found);
                        default_provider =
                          (if \<not> SupportsReplacement env (GetDefaultSearchProvider profile)
                           then None else GetDefaultSearchProvider profile);
                        keyword_provider =
                          (if keyword_provider0 = default_provider then None
                           else keyword_provider0)
                    in if default_provider = None \<and> keyword_provider = None
                       then Inr (Stop st1)
                       else
                         let st2 = (if \<not> m_done st1 \<and>
                                       (\<not> minimal_changes \<or>
                                        \<not> Providers_equals (m_providers st1)
                                            default_provider keyword_provider)
                                    then Stop st1 else st1);
                             st3 = st2\<lparr>m_providers :=
                                        Providers_Set default_provider keyword_provider
                                          (m_providers st2)\<rparr>
                         in if input_text input = [] then
                              (case default_provider of
                                 Some d \<Rightarrow>
                                   Inr (Stop (st3\<lparr>m_matches :=
                                                   m_matches st3 @
                                                   [placeholder_match env d]\<rparr>))
                               | None \<Rightarrow> Inr (Stop st3))
                            else
                              ebind (StartOrStopHistoryQuery minimal_changes
                                       (st3\<lparr>m_input := input\<rparr>))
                                (\<lambda>st4. ebind (StartOrStopSuggestQuery minimal_changes st4)
                                (\<lambda>st5. ConvertResultsToAutocompleteMatches env st5))))"

text \<open>
  \<^verbatim>\<open>kKeywordProviderURLFetcherID\<close> and \<^verbatim>\<open>kDefaultProviderURLFetcherID\<close>, and
  \<^verbatim>\<open>CreateSuggestFetcher\<close>, which returns the new fetcher: its identity, its id and the
  text it was started with. \<^verbatim>\<open>Run\<close> is what the timer calls when it fires.
\<close>

definition kDefaultProviderURLFetcherID :: nat where
  "kDefaultProviderURLFetcherID = 1"

definition kKeywordProviderURLFetcherID :: nat where
  "kKeywordProviderURLFetcherID = 2"

definition CreateSuggestFetcher ::
  "nat \<Rightarrow> TemplateURL \<Rightarrow> string \<Rightarrow> SearchProvider \<Rightarrow>
   error + (nat \<times> nat \<times> string) \<times> SearchProvider" where
  "CreateSuggestFetcher fetcher_id provider text st =
     (case suggestions_url provider of
        None \<Rightarrow> Inl NullPointer
      | Some supports \<Rightarrow>
          if \<not> supports then Inl DCheckFailed
          else Inr ((next_fetcher st, fetcher_id, text),
                    st\<lparr>next_fetcher := Suc (next_fetcher st)\<rparr>))"

definition Run :: "SearchProvider \<Rightarrow> error + SearchProvider" where
  "Run st =
     (if m_done st then Inl DCheckFailed
      else
        let st0 = st\<lparr>m_suggest_results_pending := 0\<rparr>
        in ebind (if valid_suggest_for_keyword_provider (m_providers st0)
                  then ebind (CreateSuggestFetcher kKeywordProviderURLFetcherID
                                (m_cached_keyword_provider (m_providers st0))
                                (m_keyword_input_text st0)
                                (st0\<lparr>m_suggest_results_pending :=
                                       m_suggest_results_pending st0 + 1\<rparr>))
                         (\<lambda>(f, st1). Inr (st1\<lparr>m_keyword_fetcher := Some f\<rparr>))
                  else Inr st0)
          (\<lambda>st2. ebind (if valid_suggest_for_default_provider (m_providers st2)
                         then ebind (CreateSuggestFetcher kDefaultProviderURLFetcherID
                                       (m_cached_default_provider (m_providers st2))
                                       (input_text (m_input st2))
                                       (st2\<lparr>m_suggest_results_pending :=
                                              m_suggest_results_pending st2 + 1\<rparr>))
                                (\<lambda>(f, st3). Inr (st3\<lparr>m_default_fetcher := Some f\<rparr>))
                         else Inr st2)
          (\<lambda>st4. if \<not> m_suggest_results_pending st4 > 0 then Inl DCheckFailed
                  else Inr st4)))"

subsection \<open>The suggest response\<close>

text \<open>
  The accessors of \<^verbatim>\<open>Value\<close> that the parser uses: \<^verbatim>\<open>ListValue::Get\<close>, \<^verbatim>\<open>GetAsString\<close>,
  and \<^verbatim>\<open>HasKey\<close> followed by \<^verbatim>\<open>GetList\<close> of a dictionary, which yields a list only when
  the key is bound to a list.
\<close>

definition ListValue_Get :: "Value list \<Rightarrow> nat \<Rightarrow> Value option" where
  "ListValue_Get vs i = (if i < length vs then Some (vs ! i) else None)"

fun GetAsString :: "Value \<Rightarrow> string option" where
  "GetAsString (StringValue s) = Some s"
| "GetAsString _ = None"

fun as_list :: "Value \<Rightarrow> Value list option" where
  "as_list (ListValue vs) = Some vs"
| "as_list _ = None"

definition DictionaryValue_GetList :: "(string \<times> Value) list \<Rightarrow> string \<Rightarrow> Value list option" where
  "DictionaryValue_GetList d k =
     (case map_of d k of None \<Rightarrow> None | Some v \<Rightarrow> as_list v)"

definition kGoogleSuggestType :: string where
  "kGoogleSuggestType = ''google:suggesttype''"

text \<open>
  The vector that \<^verbatim>\<open>suggest_results\<close> points to is the one that belongs to
  \<^verbatim>\<open>is_keyword\<close>: the only caller passes \<^verbatim>\<open>&keyword_suggest_results_\<close> exactly when
  \<^verbatim>\<open>is_keyword\<close> holds.
\<close>

definition suggest_results_of :: "bool \<Rightarrow> SearchProvider \<Rightarrow> string list" where
  "suggest_results_of is_keyword st =
     (if is_keyword then m_keyword_suggest_results st else m_default_suggest_results st)"

definition navigation_results_of :: "bool \<Rightarrow> SearchProvider \<Rightarrow> NavigationResult list" where
  "navigation_results_of is_keyword st =
     (if is_keyword then m_keyword_navigation_results st
      else m_default_navigation_results st)"

definition push_suggest_result :: "bool \<Rightarrow> string \<Rightarrow> SearchProvider \<Rightarrow> SearchProvider" where
  "push_suggest_result is_keyword s st =
     (if is_keyword
      then st\<lparr>m_keyword_suggest_results := m_keyword_suggest_results st @ [s]\<rparr>
      else st\<lparr>m_default_suggest_results := m_default_suggest_results st @ [s]\<rparr>)"

definition push_navigation_result ::
  "bool \<Rightarrow> NavigationResult \<Rightarrow> SearchProvider \<Rightarrow> SearchProvider" where
  "push_navigation_result is_keyword n st =
     (if is_keyword
      then st\<lparr>m_keyword_navigation_results := m_keyword_navigation_results st @ [n]\<rparr>
      else st\<lparr>m_default_navigation_results := m_default_navigation_results st @ [n]\<rparr>)"

definition is_navigation_type :: "Value list option \<Rightarrow> nat \<Rightarrow> bool" where
  "is_navigation_type type_list i =
     (case type_list of
        None \<Rightarrow> False
      | Some ts \<Rightarrow>
          (case ListValue_Get ts i of
             None \<Rightarrow> False
           | Some type_val \<Rightarrow>
               (case GetAsString type_val of
                  None \<Rightarrow> False
                | Some type_str \<Rightarrow> type_str = ''NAVIGATION'')))"

definition add_navigation_suggestion ::
  "Env \<Rightarrow> bool \<Rightarrow> Value list option \<Rightarrow> nat \<Rightarrow> string \<Rightarrow> SearchProvider \<Rightarrow> SearchProvider" where
  "add_navigation_suggestion env is_keyword description_list i suggestion_str st =
     (if length (navigation_results_of is_keyword st) < kMaxMatches env
      then (case description_list of
              None \<Rightarrow> st
            | Some ds \<Rightarrow>
                (case ListValue_Get ds i of
                   None \<Rightarrow> st
                 | Some site_val \<Rightarrow>
                     (case GetAsString site_val of
                        None \<Rightarrow> st
                      | Some name \<Rightarrow>
                          (case FixupURL env suggestion_str of
                             None \<Rightarrow> st
                           | Some result_url \<Rightarrow>
                               push_navigation_result is_keyword
                                 \<lparr>url = result_url, site_name = name\<rparr> st))))
      else st)"

text \<open>The loop over the result list, \<open>i\<close> being the index of the head of the list.\<close>

fun parse_result_list ::
  "Env \<Rightarrow> bool \<Rightarrow> Value list option \<Rightarrow> Value list option \<Rightarrow> nat \<Rightarrow> Value list \<Rightarrow>
   SearchProvider \<Rightarrow> bool \<times> SearchProvider" where
  "parse_result_list env is_keyword type_list description_list i [] st = (True, st)"
| "parse_result_list env is_keyword type_list description_list i (suggestion_val # rest) st =
     (case GetAsString suggestion_val of
        None \<Rightarrow> (False, st)
      | Some suggestion_str \<Rightarrow>
          if suggestion_str = []
          then parse_result_list env is_keyword type_list description_list (Suc i) rest st
          else if is_navigation_type type_list i
          then parse_result_list env is_keyword type_list description_list (Suc i) rest
                 (add_navigation_suggestion env is_keyword description_list i
                    suggestion_str st)
          else parse_result_list env is_keyword type_list description_list (Suc i) rest
                 (if length (suggest_results_of is_keyword st) < kMaxMatches env
                  then push_suggest_result is_keyword suggestion_str st
                  else st))"

definition ParseSuggestResults ::
  "Env \<Rightarrow> Value \<Rightarrow> bool \<Rightarrow> string \<Rightarrow> SearchProvider \<Rightarrow> bool \<times> SearchProvider" where
  "ParseSuggestResults env root_val is_keyword text st =
     (case root_val of
        ListValue root_list \<Rightarrow>
          if length root_list < 2 then (False, st)
          else
            (case ListValue_Get root_list 0 of
               None \<Rightarrow> (False, st)
             | Some query_val \<Rightarrow>
                 (case GetAsString query_val of
                    None \<Rightarrow> (False, st)
                  | Some query_str \<Rightarrow>
                      if query_str \<noteq> text then (False, st)
                      else
                        (case ListValue_Get root_list 1 of
                           None \<Rightarrow> (False, st)
                         | Some result_val \<Rightarrow>
                             (case as_list result_val of
                                None \<Rightarrow> (False, st)
                              | Some result_list \<Rightarrow>
                                  let description_list =
                                        (if length root_list > 2
                                         then (case ListValue_Get root_list 2 of
                                                 None \<Rightarrow> None
                                               | Some description_val \<Rightarrow>
                                                   as_list description_val)
                                         else None);
                                      type_list =
                                        (if length root_list > 4
                                         then (case ListValue_Get root_list 4 of
                                                 Some (DictionaryValue dict_val) \<Rightarrow>
                                                   DictionaryValue_GetList dict_val
                                                     kGoogleSuggestType
                                               | _ \<Rightarrow> None)
                                         else None)
                                  in parse_result_list env is_keyword type_list
                                       description_list 0 result_list st))))
      | _ \<Rightarrow> (False, st))"

subsection \<open>The completion callbacks\<close>

text \<open>
  \<^verbatim>\<open>OnURLFetchComplete\<close>. The fetcher \<open>source\<close> is given by its identity. The conversion
  of the character set and the JSON deserializer are outside this file: \<open>root_val\<close> is the
  result of \<^verbatim>\<open>Deserialize\<close>, \<open>None\<close> for the null pointer it returns on a syntax error.
  \<open>is_keyword_source\<close> is the test \<^verbatim>\<open>source == keyword_fetcher_.get()\<close>, and
  \<open>StoreSuggestResponse\<close> is the block that parses a successful response.
\<close>

definition is_keyword_source :: "nat \<Rightarrow> SearchProvider \<Rightarrow> bool" where
  "is_keyword_source source st =
     (case m_keyword_fetcher st of
        None \<Rightarrow> False
      | Some (ident, _) \<Rightarrow> ident = source)"

definition StoreSuggestResponse ::
  "Env \<Rightarrow> bool \<Rightarrow> bool \<Rightarrow> int \<Rightarrow> Value option \<Rightarrow> SearchProvider \<Rightarrow> SearchProvider" where
  "StoreSuggestResponse env is_keyword_results status_is_success response_code root_val st =
     (if status_is_success \<and> response_code = 200
      then (case root_val of
              None \<Rightarrow> st\<lparr>m_have_suggest_results := False\<rparr>
            | Some v \<Rightarrow>
                (case ParseSuggestResults env v is_keyword_results
                        (if is_keyword_results then m_keyword_input_text st
                         else input_text (m_input st)) st of
                   (ok, st') \<Rightarrow> st'\<lparr>m_have_suggest_results := ok\<rparr>))
      else st)"

definition OnURLFetchComplete ::
  "Env \<Rightarrow> nat \<Rightarrow> bool \<Rightarrow> int \<Rightarrow> Value option \<Rightarrow> SearchProvider \<Rightarrow> error + SearchProvider" where
  "OnURLFetchComplete env source status_is_success response_code root_val st =
     (if m_done st then Inl DCheckFailed
      else if \<not> m_suggest_results_pending st - 1 \<ge> 0 then Inl DCheckFailed
      else
        let st1 = st\<lparr>m_suggest_results_pending := m_suggest_results_pending st - 1\<rparr>;
            is_keyword_results = is_keyword_source source st1;
            st2 = StoreSuggestResponse env is_keyword_results status_is_success
                    response_code root_val st1
        in ebind (ConvertResultsToAutocompleteMatches env st2)
             (\<lambda>st3. Inr (st3\<lparr>listener_updates :=
                                listener_updates st3 @
                                [suggest_results_of is_keyword_results st3 \<noteq> []]\<rparr>)))"

text \<open>
  \<^verbatim>\<open>OnGotMostRecentKeywordSearchTerms\<close>. \<^verbatim>\<open>GetClientData\<close> is the provider id stored with
  the handle, \<^verbatim>\<open>PendingRequestCount\<close> the number of requests of the consumer.
  \<open>StoreHistoryResults\<close> is the part in front of the conversion.
\<close>

definition StoreHistoryResults ::
  "nat \<Rightarrow> KeywordSearchTermVisit list \<Rightarrow> SearchProvider \<Rightarrow> SearchProvider" where
  "StoreHistoryResults handle results st =
     (let st1 = (if valid_keyword_provider (m_providers st) \<and>
                    Some (template_url_id (m_cached_keyword_provider (m_providers st))) =
                      map_of (m_history_request_consumer st) handle
                 then st\<lparr>m_keyword_history_results := results\<rparr>
                 else st\<lparr>m_default_history_results := results\<rparr>)
      in if length (m_history_request_consumer st1) = 1
         then st1\<lparr>m_history_request_pending := False, m_have_history_results := True\<rparr>
         else st1)"

definition OnGotMostRecentKeywordSearchTerms ::
  "Env \<Rightarrow> nat \<Rightarrow> KeywordSearchTermVisit list \<Rightarrow> SearchProvider \<Rightarrow> error + SearchProvider" where
  "OnGotMostRecentKeywordSearchTerms env handle results st =
     (case m_profile st of
        None \<Rightarrow> Inl NullPointer
      | Some profile \<Rightarrow>
          ebind (ConvertResultsToAutocompleteMatches env
                   (StoreHistoryResults handle results st))
            (\<lambda>st3. Inr (st3\<lparr>listener_updates :=
                               listener_updates st3 @ [results \<noteq> []]\<rparr>)))"

text \<open>
  The completion of a history request as the \<^verbatim>\<open>CancelableRequestConsumer\<close> drives it:
  the callback runs while the request is still registered, and the request is removed
  after the callback has returned.
\<close>

definition CompleteHistoryRequest ::
  "Env \<Rightarrow> nat \<Rightarrow> KeywordSearchTermVisit list \<Rightarrow> SearchProvider \<Rightarrow> error + SearchProvider" where
  "CompleteHistoryRequest env handle results st =
     ebind (OnGotMostRecentKeywordSearchTerms env handle results st)
       (\<lambda>st1. Inr (st1\<lparr>m_history_request_consumer :=
                          filter (\<lambda>r. fst r \<noteq> handle) (m_history_request_consumer st1)\<rparr>))"

subsection \<open>Sequences of candidates\<close>

text \<open>
  A candidate is one call of \<^verbatim>\<open>AddMatchToMap\<close>, given by its arguments; \<open>AddCandidates\<close>
  makes the calls of a list of candidates in their order. \<open>pass_candidates\<close> are the
  candidates of a pass in the order in which \<^verbatim>\<open>ConvertResultsToAutocompleteMatches\<close>
  constructs them: the candidate for what the user typed when there is a default
  provider, then those of the two history loops and of the two suggest loops.
\<close>

record Candidate =
  cand_query :: string
  cand_relevance :: int
  cand_type :: MatchType
  cand_accepted :: int
  cand_is_keyword :: bool

definition AddCandidate :: "Env \<Rightarrow> SearchProvider \<Rightarrow> MatchMap \<Rightarrow> Candidate \<Rightarrow> error + MatchMap" where
  "AddCandidate env st mm c =
     AddMatchToMap env st (cand_query c) (cand_relevance c) (cand_type c) (cand_accepted c)
       (cand_is_keyword c) mm"

definition AddCandidates ::
  "Env \<Rightarrow> SearchProvider \<Rightarrow> Candidate list \<Rightarrow> MatchMap \<Rightarrow> error + MatchMap" where
  "AddCandidates env st cs mm = foldl_err (AddCandidate env st) mm cs"

definition candidate_match :: "Env \<Rightarrow> SearchProvider \<Rightarrow> Candidate \<Rightarrow> AutocompleteMatch" where
  "candidate_match env st c =
     QueryToMatch env st (cand_query c) (cand_relevance c) (cand_type c) (cand_accepted c)
       (cand_is_keyword c)"

definition history_candidates ::
  "Env \<Rightarrow> SearchProvider \<Rightarrow> KeywordSearchTermVisit list \<Rightarrow> bool \<Rightarrow> int \<Rightarrow> Candidate list" where
  "history_candidates env st results is_keyword did_not_accept_suggestion =
     map (\<lambda>r. \<lparr>cand_query = term r,
               cand_relevance = CalculateRelevanceForHistory env st (time r) is_keyword,
               cand_type = SEARCH_HISTORY,
               cand_accepted = did_not_accept_suggestion,
               cand_is_keyword = is_keyword\<rparr>) results"

definition suggest_candidates ::
  "Env \<Rightarrow> SearchProvider \<Rightarrow> string list \<Rightarrow> bool \<Rightarrow> Candidate list" where
  "suggest_candidates env st suggest_results is_keyword =
     map (\<lambda>(i, s). \<lparr>cand_query = s,
                    cand_relevance = suggestion_base_score env st is_keyword +
                                     int (length suggest_results - 1 - i),
                    cand_type = SEARCH_SUGGEST,
                    cand_accepted = int i,
                    cand_is_keyword = is_keyword\<rparr>) (enumerate 0 suggest_results)"

definition typed_candidates :: "Env \<Rightarrow> SearchProvider \<Rightarrow> Candidate list" where
  "typed_candidates env st =
     (if valid_default_provider (m_providers st)
      then (case CalculateRelevanceForWhatYouTyped st of
              Inl e \<Rightarrow> []
            | Inr rel \<Rightarrow>
                [\<lparr>cand_query = input_text (m_input st),
                  cand_relevance = rel,
                  cand_type = SEARCH_WHAT_YOU_TYPED,
                  cand_accepted =
                    (if m_default_suggest_results st = [] then NO_SUGGESTIONS_AVAILABLE env
                     else NO_SUGGESTION_CHOSEN env),
                  cand_is_keyword = False\<rparr>])
      else [])"

definition pass_candidates :: "Env \<Rightarrow> SearchProvider \<Rightarrow> Candidate list" where
  "pass_candidates env st =
     (let did_not_accept_keyword_suggestion =
            (if m_keyword_suggest_results st = [] then NO_SUGGESTIONS_AVAILABLE env
             else NO_SUGGESTION_CHOSEN env);
          did_not_accept_default_suggestion =
            (if m_default_suggest_results st = [] then NO_SUGGESTIONS_AVAILABLE env
             else NO_SUGGESTION_CHOSEN env)
      in typed_candidates env st @
         history_candidates env st (m_keyword_history_results st) True
           did_not_accept_keyword_suggestion @
         history_candidates env st (m_default_history_results st) False
           did_not_accept_default_suggestion @
         suggest_candidates env st (m_keyword_suggest_results st) True @
         suggest_candidates env st (m_default_suggest_results st) False)"

text \<open>
  The key under which a candidate is stored, and the order of the keys of a map.
\<close>

definition cand_key :: "Env \<Rightarrow> Candidate \<Rightarrow> string" where
  "cand_key env c = ToLower env (cand_query c)"

definition keys_sorted :: "MatchMap \<Rightarrow> bool" where
  "keys_sorted mm = sorted_wrt (<) (map fst mm)"

text \<open>A history candidate for the examples.\<close>

definition history_candidate :: "string \<Rightarrow> int \<Rightarrow> Candidate" where
  "history_candidate q r =
     \<lparr>cand_query = q, cand_relevance = r, cand_type = SEARCH_HISTORY, cand_accepted = -2,
      cand_is_keyword = False\<rparr>"

text \<open>
  What the comment in \<^verbatim>\<open>AddMatchToMap\<close> asks of the map, written down without the map:
  of the candidates seen so far under one key, the stored one gives way only to a
  candidate of strictly higher relevance.
\<close>

fun keep_best :: "AutocompleteMatch option \<Rightarrow> AutocompleteMatch \<Rightarrow> AutocompleteMatch option" where
  "keep_best None m = Some m"
| "keep_best (Some stored) m =
     (if relevance m > relevance stored then Some m else Some stored)"

subsection \<open>Conditions\<close>

text \<open>
  What a pass relies on: the input behind a default provider has a type the scorer knows
  (or a keyword provider is active), and a provider whose results are stored has a search
  URL that supports replacement.
\<close>

definition pass_preconditions :: "SearchProvider \<Rightarrow> bool" where
  "pass_preconditions st =
     ((valid_default_provider (m_providers st) \<longrightarrow>
         valid_keyword_provider (m_providers st) \<or> input_type (m_input st) \<noteq> INVALID) \<and>
      (valid_default_provider (m_providers st) \<or> m_default_history_results st \<noteq> [] \<or>
       m_default_suggest_results st \<noteq> [] \<longrightarrow>
         url_supports_replacement (m_cached_default_provider (m_providers st))) \<and>
      (m_keyword_history_results st \<noteq> [] \<or> m_keyword_suggest_results st \<noteq> [] \<longrightarrow>
         url_supports_replacement (m_cached_keyword_provider (m_providers st))))"

text \<open>
  What the completion of a fetch relies on: the provider is not done, a fetch is pending,
  the stored results meet the conditions of a pass, and the provider that the fetcher
  belongs to has a search URL that supports replacement.
\<close>

definition fetch_preconditions :: "nat \<Rightarrow> SearchProvider \<Rightarrow> bool" where
  "fetch_preconditions source st =
     (\<not> m_done st \<and> 0 < m_suggest_results_pending st \<and> pass_preconditions st \<and>
      url_supports_replacement
        (if is_keyword_source source st then m_cached_keyword_provider (m_providers st)
         else m_cached_default_provider (m_providers st)))"

text \<open>
  What is asked of the parameter \<open>pow\<close> where the relevance of an older visit is
  compared with that of a newer one: for the exponent of the source it is not negative and
  does not decrease when its first argument, which is not negative, grows.
\<close>

definition pow_monotone :: "Env \<Rightarrow> bool" where
  "pow_monotone env =
     (\<forall>x y. 0 \<le> x \<and> x \<le> y \<longrightarrow>
        0 \<le> pow env x (round_double 0.3) \<and>
        pow env x (round_double 0.3) \<le> pow env y (round_double 0.3))"



subsection \<open>Instances for the examples\<close>

text \<open>
  The constructor of \<^verbatim>\<open>SearchProvider\<close>: the members of its initializer list, the others
  default-constructed, and \<open>m_done\<close> as the base class starts it.
\<close>

definition default_TemplateURL :: TemplateURL where
  "default_TemplateURL =
     \<lparr>template_url_id = 0, short_name = [], keyword = [], url_supports_replacement = False,
      suggestions_url = None\<rparr>"

definition default_AutocompleteInput :: AutocompleteInput where
  "default_AutocompleteInput =
     \<lparr>input_text = [], input_type = INVALID, scheme = [],
      parts = \<lparr>username = -1, port = -1, path = -1, query = -1, ref = -1\<rparr>,
      prevent_inline_autocomplete = False, synchronous_only = False\<rparr>"

definition SearchProvider_new :: "Profile option \<Rightarrow> SearchProvider" where
  "SearchProvider_new profile =
     \<lparr>m_matches = [], m_done = True, m_profile = profile,
      m_input = default_AutocompleteInput, m_keyword_input_text = [],
      m_providers = \<lparr>m_default_provider = None,
                      m_cached_default_provider = default_TemplateURL,
                      m_keyword_provider = None,
                      m_cached_keyword_provider = default_TemplateURL\<rparr>,
      m_have_history_results = False, m_history_request_pending = False,
      m_suggest_results_pending = 0, m_have_suggest_results = False,
      m_keyword_history_results = [], m_default_history_results = [],
      m_keyword_suggest_results = [], m_default_suggest_results = [],
      m_keyword_navigation_results = [], m_default_navigation_results = [],
      m_history_request_consumer = [], next_handle = 0, timer_running = False,
      m_keyword_fetcher = None, m_default_fetcher = None, next_fetcher = 0,
      listener_updates = []\<rparr>"

text \<open>
  Comparators for the parameter \<open>MoreRelevant\<close>: by relevance, with equal relevances
  decided by the contents, ascending or descending.
\<close>

definition by_relevance_then_contents :: "AutocompleteMatch \<Rightarrow> AutocompleteMatch \<Rightarrow> bool" where
  "by_relevance_then_contents a b =
     (if relevance a = relevance b then contents a < contents b
      else relevance a > relevance b)"


text \<open>
  An instance of the parameter \<open>partial_sort\<close>: an insertion sort of the whole vector.
  The examples use it with comparators that separate any two of their matches, so that
  the front range is the same with every sort that keeps the promise of
  \<^verbatim>\<open>std::partial_sort\<close>.
\<close>

fun insert_by :: "('a \<Rightarrow> 'a \<Rightarrow> bool) \<Rightarrow> 'a \<Rightarrow> 'a list \<Rightarrow> 'a list" where
  "insert_by cmp x [] = [x]"
| "insert_by cmp x (y # ys) =
     (if cmp y x then y # insert_by cmp x ys else x # y # ys)"

fun sort_by :: "('a \<Rightarrow> 'a \<Rightarrow> bool) \<Rightarrow> 'a list \<Rightarrow> 'a list" where
  "sort_by cmp [] = []"
| "sort_by cmp (x # xs) = insert_by cmp x (sort_by cmp xs)"

text \<open>
  An instance of the parameter \<open>pow\<close>: the power, correctly rounded.
\<close>

definition rounded_pow :: "real \<Rightarrow> real \<Rightarrow> real" where
  "rounded_pow x y = round_double (x powr y)"

definition ascii_lower :: "string \<Rightarrow> string" where
  "ascii_lower s =
     map (\<lambda>c. case map_of (zip ''ABCDEFGHIJKLMNOPQRSTUVWXYZ''
                                ''abcdefghijklmnopqrstuvwxyz'') c of
                 None \<Rightarrow> c
               | Some l \<Rightarrow> l) s"

text \<open>
  An environment for the examples: three for \<open>kMaxMatches\<close>, a lower-casing of the ASCII
  letters, a clock at one second, the correctly rounded power and the insertion sort. Only
  the default provider is active in the examples; its results are the primary ones there,
  whichever way \<open>is_primary_provider\<close> decides when a keyword provider is active as well.
\<close>

definition example_env :: Env where
  "example_env =
     \<lparr>kMaxMatches = 3,
      ToLower = ascii_lower,
      MoreRelevant = by_relevance_then_contents,
      is_primary_provider = (\<lambda>p from_keyword. from_keyword \<or> \<not> valid_keyword_provider p),
      Now = 1000000,
      pow = rounded_pow,
      partial_sort = (\<lambda>cmp middle xs. sort_by cmp xs),
      IsBookmarked = (\<lambda>d. False),
      SearchDescription = (\<lambda>name. name @ '' Search''),
      EmptyKeywordValue = ''<enter query>'',
      FixupURL = (\<lambda>s. if s = [] then None else Some (''http://'' @ s @ ''/'')),
      StringForURLDisplay = (\<lambda>u t. u),
      ClassifyMatchInString = (\<lambda>t s style. [(0, style)]),
      FormattedStringWithEquivalentMeaning = (\<lambda>u c. c),
      GetSubstitutingTemplateURLForInput = (\<lambda>p i. (None, [])),
      SupportsReplacement =
        (\<lambda>t. case t of None \<Rightarrow> False | Some u \<Rightarrow> url_supports_replacement u),
      NO_SUGGESTIONS_AVAILABLE = -2,
      NO_SUGGESTION_CHOSEN = -1\<rparr>"

definition example_provider :: TemplateURL where
  "example_provider =
     \<lparr>template_url_id = 1, short_name = ''Example'', keyword = ''example.com'',
      url_supports_replacement = True, suggestions_url = Some True\<rparr>"

definition example_profile :: Profile where
  "example_profile =
     \<lparr>IsOffTheRecord = False, kSearchSuggestEnabled = True,
      GetDefaultSearchProvider = Some example_provider\<rparr>"

definition example_input :: "string \<Rightarrow> InputType \<Rightarrow> AutocompleteInput" where
  "example_input s t = default_AutocompleteInput\<lparr>input_text := s, input_type := t\<rparr>"

text \<open>
  A provider in the middle of a query for \<open>s\<close> with the default provider only: both
  sources are still outstanding.
\<close>

definition example_state :: "string \<Rightarrow> InputType \<Rightarrow> SearchProvider" where
  "example_state s t =
     (SearchProvider_new (Some example_profile))
       \<lparr>m_done := False,
        m_input := example_input s t,
        m_providers := Providers_Set (Some example_provider) None
                         (m_providers (SearchProvider_new (Some example_profile))),
        m_history_request_pending := True,
        m_history_request_consumer := [(0, 1)],
        next_handle := 1,
        m_suggest_results_pending := 1,
        m_default_fetcher := Some (0, kDefaultProviderURLFetcherID, s),
        next_fetcher := 1\<rparr>"

text \<open>An input that is an https URL with a path.\<close>

definition https_state :: SearchProvider where
  "https_state =
     (example_state ''https://example.com/private'' URL)
       \<lparr>m_input := (example_input ''https://example.com/private'' URL)
          \<lparr>scheme := ''https'',
           parts := \<lparr>username = -1, port = -1, path = 8, query = -1, ref = -1\<rparr>\<rparr>\<rparr>"

text \<open>
  A state with more candidates than fit: three history results and three suggestions next
  to what the user typed.
\<close>

definition crowded_state :: SearchProvider where
  "crowded_state =
     (example_state ''a'' QUERY)
       \<lparr>m_default_history_results :=
          [\<lparr>term = ''ab'', time = 1000000\<rparr>, \<lparr>term = ''ac'', time = 0\<rparr>,
           \<lparr>term = ''ad'', time = 0\<rparr>],
        m_default_suggest_results := [''ae'', ''af'', ''ag'']\<rparr>"

text \<open>
  The example state for the input \<open>x\<close> after its history request has come back empty:
  inside the callback, where the request is still registered, and after it.
\<close>

definition history_callback_state :: SearchProvider where
  "history_callback_state =
     (example_state ''x'' QUERY)
       \<lparr>m_matches := [QueryToMatch example_env (example_state ''x'' QUERY) ''x'' 1300
                        SEARCH_WHAT_YOU_TYPED (-2) False],
        m_done := False,
        m_have_history_results := True,
        m_history_request_pending := False,
        listener_updates := [False]\<rparr>"

definition history_done_state :: SearchProvider where
  "history_done_state = history_callback_state\<lparr>m_history_request_consumer := []\<rparr>"


text \<open>
  A response to the input \<open>x\<close> whose list of suggestions holds a number behind its
  first suggestion.
\<close>

definition malformed_response :: Value where
  "malformed_response =
     ListValue [StringValue ''x'', ListValue [StringValue ''xyz'', IntegerValue 42]]"

subsection \<open>Basic facts\<close>

lemma ebind_Inr [simp]: "ebind (Inr x) f = f x"
  by (simp add: ebind_def)

lemma ebind_Inl [simp]: "ebind (Inl e) f = Inl e"
  by (simp add: ebind_def)

lemma ebind_eq_Inr: "ebind m f = Inr y \<longleftrightarrow> (\<exists>x. m = Inr x \<and> f x = Inr y)"
  by (cases m) simp_all

lemma example_env_simps:
  "kMaxMatches example_env = 3"
  "ToLower example_env = ascii_lower"
  "MoreRelevant example_env = by_relevance_then_contents"
  "is_primary_provider example_env p k = (k \<or> \<not> valid_keyword_provider p)"
  "Now example_env = 1000000"
  "pow example_env = rounded_pow"
  "partial_sort example_env cmp middle xs = sort_by cmp xs"
  "IsBookmarked example_env d = False"
  "SearchDescription example_env name = name @ '' Search''"
  "EmptyKeywordValue example_env = ''<enter query>''"
  "FixupURL example_env u = (if u = [] then None else Some (''http://'' @ u @ ''/''))"
  "StringForURLDisplay example_env u t = u"
  "ClassifyMatchInString example_env t u style = [(0, style)]"
  "FormattedStringWithEquivalentMeaning example_env u c = c"
  "SupportsReplacement example_env (Some e) = url_supports_replacement e"
  "NO_SUGGESTIONS_AVAILABLE example_env = -2"
  "NO_SUGGESTION_CHOSEN example_env = -1"
  by (simp_all add: example_env_def)

lemma example_state_simps:
  "m_matches (example_state s t) = []"
  "m_done (example_state s t) = False"
  "m_profile (example_state s t) = Some example_profile"
  "m_input (example_state s t) = example_input s t"
  "m_keyword_input_text (example_state s t) = []"
  "m_providers (example_state s t) =
     \<lparr>m_default_provider = Some example_provider,
      m_cached_default_provider = example_provider,
      m_keyword_provider = None,
      m_cached_keyword_provider = default_TemplateURL\<rparr>"
  "m_have_history_results (example_state s t) = False"
  "m_history_request_pending (example_state s t) = True"
  "m_suggest_results_pending (example_state s t) = 1"
  "m_have_suggest_results (example_state s t) = False"
  "m_keyword_history_results (example_state s t) = []"
  "m_default_history_results (example_state s t) = []"
  "m_keyword_suggest_results (example_state s t) = []"
  "m_default_suggest_results (example_state s t) = []"
  "m_keyword_navigation_results (example_state s t) = []"
  "m_default_navigation_results (example_state s t) = []"
  "m_history_request_consumer (example_state s t) = [(0, 1)]"
  "next_handle (example_state s t) = 1"
  "timer_running (example_state s t) = False"
  "m_keyword_fetcher (example_state s t) = None"
  "m_default_fetcher (example_state s t) = Some (0, 1, s)"
  "next_fetcher (example_state s t) = 1"
  "listener_updates (example_state s t) = []"
  by (simp_all add: example_state_def SearchProvider_new_def Providers_Set_def
        kDefaultProviderURLFetcherID_def)

lemma example_input_simps:
  "input_text (example_input s t) = s"
  "input_type (example_input s t) = t"
  "scheme (example_input s t) = []"
  "prevent_inline_autocomplete (example_input s t) = False"
  "synchronous_only (example_input s t) = False"
  by (simp_all add: example_input_def default_AutocompleteInput_def)

lemma example_provider_simps:
  "template_url_id example_provider = 1"
  "short_name example_provider = ''Example''"
  "keyword example_provider = ''example.com''"
  "url_supports_replacement example_provider = True"
  "suggestions_url example_provider = Some True"
  by (simp_all add: example_provider_def)

lemma example_profile_simps:
  "IsOffTheRecord example_profile = False"
  "kSearchSuggestEnabled example_profile = True"
  "GetDefaultSearchProvider example_profile = Some example_provider"
  by (simp_all add: example_profile_def)

subsection \<open>Facts about doubles\<close>

text \<open>
  The rounding to an integer lies next to its argument, leaves an integer as it is and is
  monotone.
\<close>

lemma round_nearest_even_bounds: "\<lfloor>q\<rfloor> \<le> round_nearest_even q \<and> round_nearest_even q \<le> \<lfloor>q\<rfloor> + 1"
  by (simp add: round_nearest_even_def Let_def)

lemma round_nearest_even_near:
  assumes "\<bar>q - of_int n\<bar> < 1 / 2"
  shows "round_nearest_even q = n"
proof (cases "of_int n \<le> q")
  case True
  with assms have "\<lfloor>q\<rfloor> = n" by (simp add: floor_eq_iff; linarith)
  with assms True show ?thesis by (simp add: round_nearest_even_def Let_def)
next
  case False
  with assms have f: "\<lfloor>q\<rfloor> = n - 1" by (simp add: floor_eq_iff; linarith)
  from assms False have "1 / 2 < q - of_int (n - 1)" by (simp; linarith)
  with f show ?thesis by (simp add: round_nearest_even_def Let_def)
qed

lemma round_nearest_even_int [simp]: "round_nearest_even (of_int n) = n"
  by (rule round_nearest_even_near) simp

lemma round_nearest_even_zero [simp]: "round_nearest_even 0 = 0"
  using round_nearest_even_int [of 0] by simp

lemma round_nearest_even_mono:
  assumes "q1 \<le> q2"
  shows "round_nearest_even q1 \<le> round_nearest_even q2"
proof (cases "\<lfloor>q1\<rfloor> < \<lfloor>q2\<rfloor>")
  case True
  with round_nearest_even_bounds [of q1] round_nearest_even_bounds [of q2] show ?thesis by linarith
next
  case False
  with floor_mono [OF assms] have "\<lfloor>q1\<rfloor> = \<lfloor>q2\<rfloor>" by simp
  with assms show ?thesis by (simp add: round_nearest_even_def Let_def)
qed

text \<open>
  The rounding to a double within one binade, and from that: it keeps the sign, stays in
  the closed binade and is monotone on the numbers that are not negative.
\<close>

lemma floor_log_binade:
  assumes "2 powi e \<le> x" "x < 2 powi (e + 1)"
  shows "\<lfloor>log 2 \<bar>x\<bar>\<rfloor> = e"
proof -
  have "(0::real) < 2 powi e" by simp
  with assms(1) have x: "0 < x" by linarith
  have "(2::real) powr (of_int e) = 2 powi e" "(2::real) powr (of_int (e + 1)) = 2 powi (e + 1)"
    by (rule powr_real_of_int'; simp)+
  with assms have "2 powr (of_int e) \<le> x" "x < 2 powr (of_int (e + 1))"
    by simp_all
  then have "of_int e \<le> log 2 x" "log 2 x < of_int (e + 1)"
    using x by (simp_all add: le_log_iff log_less_iff)
  then show ?thesis using x by (simp add: floor_eq_iff)
qed

lemma round_double_binade:
  assumes "2 powi e \<le> x" "x < 2 powi (e + 1)"
  shows "round_double x = of_int (round_nearest_even (x / 2 powi (e - 52))) * 2 powi (e - 52)"
proof -
  have "(0::real) < 2 powi e" by simp
  with assms(1) have x: "0 < x" by linarith
  with floor_log_binade [OF assms] show ?thesis by (simp add: round_double_def Let_def)
qed

lemma binade_of_positive:
  assumes "0 < x"
  shows "2 powi \<lfloor>log 2 x\<rfloor> \<le> x \<and> x < 2 powi (\<lfloor>log 2 x\<rfloor> + 1)"
proof -
  have a: "(2::real) powr (of_int \<lfloor>log 2 x\<rfloor>) = 2 powi \<lfloor>log 2 x\<rfloor>"
    "(2::real) powr (of_int (\<lfloor>log 2 x\<rfloor> + 1)) = 2 powi (\<lfloor>log 2 x\<rfloor> + 1)"
    by (rule powr_real_of_int'; simp)+
  have "of_int \<lfloor>log 2 x\<rfloor> \<le> log 2 x" "log 2 x < of_int (\<lfloor>log 2 x\<rfloor> + 1)"
    using floor_correct [of "log 2 x"] by blast+
  then have "2 powr (of_int \<lfloor>log 2 x\<rfloor>) \<le> x" "x < 2 powr (of_int (\<lfloor>log 2 x\<rfloor> + 1))"
    using assms by (simp_all only: le_log_iff log_less_iff one_less_numeral_iff semiring_norm)
  with a show ?thesis by simp
qed

lemma round_double_nonneg: "0 \<le> x \<Longrightarrow> 0 \<le> round_double x"
proof -
  assume x: "0 \<le> x"
  have "0 \<le> round_nearest_even (x / 2 powi (\<lfloor>log 2 \<bar>x\<bar>\<rfloor> - 52))"
    using round_nearest_even_mono [of 0 "x / 2 powi (\<lfloor>log 2 \<bar>x\<bar>\<rfloor> - 52)"] x by simp
  then show ?thesis by (simp add: round_double_def Let_def)
qed

lemma round_double_nonpos: "x \<le> 0 \<Longrightarrow> round_double x \<le> 0"
proof -
  assume x: "x \<le> 0"
  have "x / 2 powi (\<lfloor>log 2 \<bar>x\<bar>\<rfloor> - 52) \<le> 0"
    using x by (simp add: divide_nonpos_pos)
  from round_nearest_even_mono [OF this]
  have "round_nearest_even (x / 2 powi (\<lfloor>log 2 \<bar>x\<bar>\<rfloor> - 52)) \<le> 0" by simp
  then show ?thesis by (simp add: round_double_def Let_def mult_le_0_iff)
qed

lemma round_double_in_binade:
  assumes "2 powi e \<le> x" "x < 2 powi (e + 1)"
  shows "2 powi e \<le> round_double x \<and> round_double x \<le> 2 powi (e + 1)"
proof -
  let ?u = "(2::real) powi (e - 52)"
  have u: "0 < ?u" by simp
  have lo: "2 powi e / ?u = (2::real) ^ 52" and hi: "2 powi (e + 1) / ?u = (2::real) ^ 53"
    by (simp_all add: power_int_diff power_int_add field_simps)
  from assms u have "2 ^ 52 \<le> x / ?u" "x / ?u \<le> 2 ^ 53"
    unfolding lo [symmetric] hi [symmetric] by (simp_all add: divide_right_mono)
  then have "round_nearest_even (of_int (2 ^ 52)) \<le> round_nearest_even (x / ?u)"
    "round_nearest_even (x / ?u) \<le> round_nearest_even (of_int (2 ^ 53))"
    by (intro round_nearest_even_mono; simp)+
  then have n: "(2::real) ^ 52 \<le> of_int (round_nearest_even (x / ?u))"
    "of_int (round_nearest_even (x / ?u)) \<le> (2::real) ^ 53"
    unfolding round_nearest_even_int by simp_all
  have "2 ^ 52 * ?u \<le> of_int (round_nearest_even (x / ?u)) * ?u"
    by (rule mult_right_mono [OF n(1)]) simp
  moreover have "of_int (round_nearest_even (x / ?u)) * ?u \<le> 2 ^ 53 * ?u"
    by (rule mult_right_mono [OF n(2)]) simp
  moreover have "2 ^ 52 * ?u = 2 powi e" "2 ^ 53 * ?u = 2 powi (e + 1)"
    by (simp_all add: power_int_diff power_int_add field_simps)
  ultimately show ?thesis
    unfolding round_double_binade [OF assms] by (simp only:)
qed

lemma round_double_mono:
  assumes "0 \<le> x" "x \<le> y"
  shows "round_double x \<le> round_double y"
proof (cases "x = 0")
  case True
  with assms round_double_nonneg [of y] show ?thesis by (simp add: round_double_def)
next
  case False
  with assms have x: "0 < x" and y: "0 < y" by simp_all
  let ?ex = "\<lfloor>log 2 x\<rfloor>" and ?ey = "\<lfloor>log 2 y\<rfloor>"
  note bx = binade_of_positive [OF x] and bz = binade_of_positive [OF y]
  have le: "?ex \<le> ?ey" using x assms by (intro floor_mono) simp
  show ?thesis
  proof (cases "?ex = ?ey")
    case True
    have "x / 2 powi (?ex - 52) \<le> y / 2 powi (?ex - 52)"
      using assms by (simp add: divide_right_mono)
    from round_nearest_even_mono [OF this] show ?thesis
      using bx bz True
      by (simp add: round_double_binade [of ?ex x] round_double_binade [of ?ex y])
  next
    case False
    with le have "?ex + 1 \<le> ?ey" by simp
    then have "(2::real) powi (?ex + 1) \<le> 2 powi ?ey"
      by (intro power_int_increasing) simp_all
    with round_double_in_binade [of ?ex x] round_double_in_binade [of ?ey y] bx bz
    show ?thesis by linarith
  qed
qed

lemma round_double_0 [simp]: "round_double 0 = 0"
  by (simp add: round_double_def)

lemma round_double_exact:
  assumes "2 powi e \<le> x" "x < 2 powi (e + 1)" "x / 2 powi (e - 52) = of_int n"
  shows "round_double x = x"
proof -
  have "of_int n * (2::real) powi (e - 52) = x"
    unfolding assms(3) [symmetric] by simp
  then show ?thesis
    by (simp add: round_double_binade [OF assms(1,2)] assms(3))
qed

lemma round_double_near:
  assumes "2 powi e \<le> x" "x < 2 powi (e + 1)" "\<bar>x / 2 powi (e - 52) - of_int n\<bar> < 1 / 2"
  shows "round_double x = of_int n * 2 powi (e - 52)"
  by (simp add: round_double_binade [OF assms(1,2)] round_nearest_even_near [OF assms(3)])

text \<open>
  The doubles of the examples: the literals that are doubles as they stand, the literal
  \<^verbatim>\<open>0.3\<close>, the seconds of the three time differences, and the powers, products and
  truncations that the discounts for 0, 1 and 1024 seconds need. The double nearest to
  \<open>0.3\<close> is \<open>0.3 - 0.2 / 2 ^ 54\<close>, so that the power of 1024 is \<open>8 * 2 powr - (1 / 2 ^ 53)\<close>,
  which lies nearest to the double below 8.
\<close>

lemma round_double_examples:
  "round_double 1 = 1"
  "round_double (13 / 2) = 13 / 2"
  "round_double 1024 = 1024"
  "round_double 1000000 = 1000000"
  "round_double 1024000000 = 1024000000"
proof -
  show "round_double 1 = 1"
    by (rule round_double_exact [of 0 _ "2 ^ 52"]) simp_all
  show "round_double (13 / 2) = 13 / 2"
    by (rule round_double_exact [of 2 _ "13 * 2 ^ 49"]) simp_all
  show "round_double 1024 = 1024"
    by (rule round_double_exact [of 10 _ "2 ^ 52"]) simp_all
  show "round_double 1000000 = 1000000"
    by (rule round_double_exact [of 19 _ "1000000 * 2 ^ 33"]) simp_all
  show "round_double 1024000000 = 1024000000"
    by (rule round_double_exact [of 29 _ "1024000000 * 2 ^ 23"]) simp_all
qed

lemma round_double_literal_0_3:
  "round_double 0.3 = 5404319552844595 / 18014398509481984"
  using round_double_near [of "-2" "0.3" 5404319552844595] by simp

lemma InSecondsF_examples:
  "InSecondsF 0 = 0" "InSecondsF 1000000 = 1" "InSecondsF 1024000000 = 1024"
  by (simp_all add: InSecondsF_def double_divide_def double_of_int_def round_double_examples)

lemma rounded_pow_0_1:
  "rounded_pow 0 y = 0" "rounded_pow 1 y = 1"
  by (simp_all add: rounded_pow_def round_double_examples)

lemma ln_2_bounds: "3 / 5 < ln (2::real)" "ln (2::real) < 1"
proof -
  have "exp (3 / 10 :: real) \<le> 1 + 3 / 10 + (3 / 10)\<^sup>2"
    by (rule exp_bound) simp_all
  then have "exp (3 / 10 :: real) \<le> 139 / 100" by (simp add: power2_eq_square)
  moreover have "0 \<le> exp (3 / 10 :: real)" by simp
  ultimately have "exp (3 / 10 :: real) * exp (3 / 10) \<le> (139 / 100) * (139 / 100)"
    by (intro mult_mono) simp_all
  then have "exp (3 / 5 :: real) < 2"
    by (simp add: exp_add [symmetric])
  then have "exp (3 / 5 :: real) < exp (ln 2)" by simp
  then show "3 / 5 < ln (2::real)" by (simp only: exp_less_cancel_iff)
  show "ln (2::real) < 1" by (rule ln_2_less_1)
qed

lemma powr_1024: "(1024::real) powr y = 2 powr (10 * y)"
proof -
  have "(1024::real) = 2 powr 10" by simp
  then show ?thesis by (simp only: powr_powr)
qed

lemma ideal_power_1024: "(1024::real) powr 0.3 = 8"
  by (simp add: powr_1024)

lemma rounded_pow_1024:
  "rounded_pow 1024 (round_double 0.3) = 9007199254740991 / 1125899906842624"
proof -
  define x :: real where "x = ln 2 / 2 ^ 53"
  define w where "w = exp (- x)"
  have x: "0 < x" "x < 1 / 2 ^ 53" "3 / 5 / 2 ^ 53 < x"
    using ln_2_bounds by (simp_all add: x_def divide_strict_right_mono)
  have "(1024::real) powr (round_double 0.3) = 2 powr (3 - 1 / 2 ^ 53)"
    by (simp add: powr_1024 round_double_literal_0_3)
  also have "\<dots> = 2 powr 3 * 2 powr (- (1 / 2 ^ 53))"
    by (simp only: powr_add [symmetric] diff_conv_add_uminus)
  also have "(2::real) powr (- (1 / 2 ^ 53)) = w"
    by (simp add: powr_def w_def x_def)
  finally have v: "(1024::real) powr (round_double 0.3) = 8 * w" by simp
  have lo: "1 - x \<le> w"
    using exp_ge_add_one_self [of "- x"] by (simp add: w_def)
  have "1 + x \<le> exp x" by (rule exp_ge_add_one_self)
  then have "w \<le> 1 / (1 + x)"
    using x(1) by (simp add: w_def exp_minus field_simps)
  also have "1 / (1 + x) \<le> 1 - x + x * x"
    using x(1) by (simp add: field_simps)
  finally have hi: "w \<le> 1 - x + x * x" .
  have "x * x < x * (1 / 2 ^ 53)"
    using x by (intro mult_strict_left_mono) simp_all
  with hi have "w < 1 - x * (1 - 1 / 2 ^ 53)"
    by (simp add: algebra_simps)
  moreover have "3 / 5 / 2 ^ 53 * (11 / 12) < x * (1 - 1 / 2 ^ 53)"
    using x by (intro mult_strict_mono) simp_all
  ultimately have up: "w < 1 - 11 / 20 / 2 ^ 53" by simp
  from lo x have low: "1 - 1 / 2 ^ 53 < w" by simp
  have b1: "2 powi 2 \<le> 8 * w" using low by simp
  have b2: "8 * w < 2 powi (2 + 1)" using up by simp
  have "\<bar>8 * w / 2 powi (2 - 52) - of_int 9007199254740991\<bar> < 1 / 2"
    using low up by (simp add: abs_less_iff)
  from round_double_near [OF b1 b2 this]
  have "round_double (8 * w) = 9007199254740991 * 2 powi (2 - 52)" by simp
  then show ?thesis by (simp add: rounded_pow_def v)
qed

lemma double_times_examples:
  "double_times (13 / 2) 0 = 0"
  "double_times (13 / 2) 1 = 13 / 2"
  "double_times (13 / 2) (9007199254740991 / 1125899906842624) =
     7318349394477055 / 140737488355328"
proof -
  show "double_times (13 / 2) 0 = 0" by (simp add: double_times_def)
  show "double_times (13 / 2) 1 = 13 / 2"
    by (simp add: double_times_def round_double_examples)
  show "double_times (13 / 2) (9007199254740991 / 1125899906842624) =
     7318349394477055 / 140737488355328"
    unfolding double_times_def
    using round_double_near [of 5 "13 / 2 * (9007199254740991 / 1125899906842624)"
                               7318349394477055]
    by simp
qed

lemma static_cast_int_examples:
  "static_cast_int 0 = 0" "static_cast_int (13 / 2) = 6"
  "static_cast_int (7318349394477055 / 140737488355328) = 51"
  by (simp_all add: static_cast_int_def floor_eq_iff)

text \<open>
  Monotonicity of the elapsed time and of the discount, and the distance of the discount
  from the floor of a number next to the double product.
\<close>

lemma static_cast_int_mono:
  "0 \<le> x \<Longrightarrow> x \<le> y \<Longrightarrow> static_cast_int x \<le> static_cast_int y"
  by (simp add: static_cast_int_def floor_mono)

lemma InSecondsF_nonpos: "d \<le> 0 \<Longrightarrow> InSecondsF d \<le> 0"
proof -
  assume "d \<le> 0"
  then have "double_of_int d \<le> 0"
    by (simp add: double_of_int_def round_double_nonpos)
  then have "double_of_int d / 1000000 \<le> 0" by simp
  then show ?thesis
    unfolding InSecondsF_def double_divide_def by (rule round_double_nonpos)
qed

lemma InSecondsF_mono:
  assumes "0 \<le> d" and "d \<le> d'"
  shows "InSecondsF d \<le> InSecondsF d'"
proof -
  from assms have a: "0 \<le> double_of_int d" "double_of_int d \<le> double_of_int d'"
    by (simp_all add: double_of_int_def round_double_nonneg round_double_mono)
  then have "0 \<le> double_of_int d / 1000000"
    "double_of_int d / 1000000 \<le> double_of_int d' / 1000000"
    by simp_all
  then show ?thesis
    unfolding InSecondsF_def double_divide_def by (rule round_double_mono)
qed

lemma elapsed_time_nonneg: "0 \<le> elapsed_time env t"
  by (simp add: elapsed_time_def)

lemma elapsed_time_mono:
  assumes "t' \<le> t"
  shows "elapsed_time env t \<le> elapsed_time env t'"
proof (cases "0 \<le> Now env - t")
  case True
  with assms InSecondsF_mono [of "Now env - t" "Now env - t'"]
  show ?thesis by (simp add: elapsed_time_def max_def)
next
  case False
  with InSecondsF_nonpos [of "Now env - t"] show ?thesis
    by (simp add: elapsed_time_def max_def)
qed

lemma score_discount_mono:
  assumes "pow_monotone env" and "0 \<le> e1" and "e1 \<le> e2"
  shows "score_discount env e1 \<le> score_discount env e2"
proof -
  from assms have p: "0 \<le> pow env e1 (round_double 0.3)"
    "pow env e1 (round_double 0.3) \<le> pow env e2 (round_double 0.3)"
    unfolding pow_monotone_def by blast+
  then have "0 \<le> 6.5 * pow env e1 (round_double 0.3)"
    "6.5 * pow env e1 (round_double 0.3) \<le> 6.5 * pow env e2 (round_double 0.3)"
    by simp_all
  then have "0 \<le> double_times 6.5 (pow env e1 (round_double 0.3))"
    "double_times 6.5 (pow env e1 (round_double 0.3)) \<le>
     double_times 6.5 (pow env e2 (round_double 0.3))"
    unfolding double_times_def by (simp_all only: round_double_nonneg round_double_mono)
  then show ?thesis
    unfolding score_discount_def by (rule static_cast_int_mono)
qed

lemma static_cast_int_near:
  assumes "0 \<le> y" and "\<bar>x - y\<bar> < 1"
  shows "\<bar>static_cast_int x - \<lfloor>y\<rfloor>\<bar> \<le> 1"
proof (cases "0 \<le> x")
  case True
  have "x \<le> y + 1" "y \<le> x + 1"
    using assms(2) by linarith+
  then have "\<lfloor>x\<rfloor> \<le> \<lfloor>y + 1\<rfloor>" "\<lfloor>y\<rfloor> \<le> \<lfloor>x + 1\<rfloor>"
    by (simp_all only: floor_mono)
  with True show ?thesis by (simp add: static_cast_int_def)
next
  case False
  with assms have b: "- 1 < x" "x < 0" "y < 1" by linarith+
  then have "\<lceil>x\<rceil> = 0" by (simp add: ceiling_eq_iff)
  moreover from assms(1) b(3) have "\<lfloor>y\<rfloor> = 0" by (simp add: floor_eq_iff)
  ultimately show ?thesis using False by (simp add: static_cast_int_def)
qed

lemma pow_monotone_rounded:
  assumes "pow env = rounded_pow"
  shows "pow_monotone env"
proof -
  have c: "0 \<le> round_double 0.3" by (simp add: round_double_nonneg)
  have "0 \<le> rounded_pow x (round_double 0.3) \<and>
        rounded_pow x (round_double 0.3) \<le> rounded_pow y (round_double 0.3)"
    if "0 \<le> x" "x \<le> y" for x y :: real
  proof
    show "0 \<le> rounded_pow x (round_double 0.3)"
      by (simp add: rounded_pow_def round_double_nonneg)
    from that c have "x powr round_double 0.3 \<le> y powr round_double 0.3"
      by (intro powr_mono2) simp_all
    then show "rounded_pow x (round_double 0.3) \<le> rounded_pow y (round_double 0.3)"
      unfolding rounded_pow_def by (intro round_double_mono) simp_all
  qed
  then show ?thesis unfolding pow_monotone_def assms by blast
qed

text \<open>The elapsed times and the discounts of the examples.\<close>

lemma elapsed_time_examples:
  "Now env = 1000000 \<Longrightarrow> elapsed_time env 1000000 = 0"
  "Now env = 1000000 \<Longrightarrow> elapsed_time env 0 = 1"
  "Now env = 1024000000 \<Longrightarrow> elapsed_time env 0 = 1024"
  by (simp_all add: elapsed_time_def InSecondsF_examples)

lemma score_discount_examples:
  "pow env = rounded_pow \<Longrightarrow> score_discount env 0 = 0"
  "pow env = rounded_pow \<Longrightarrow> score_discount env 1 = 6"
  "pow env = rounded_pow \<Longrightarrow> score_discount env 1024 = 51"
  by (simp_all add: score_discount_def rounded_pow_0_1 rounded_pow_1024
        double_times_examples static_cast_int_examples)

text \<open>The definitions that the evaluation of a pass on an example unfolds.\<close>

lemmas eval_defs =
  ConvertResultsToAutocompleteMatches_def CombinedMatches_def ConvertResultsToMatchMap_def
  AddHistoryResultsToMap_def AddSuggestResultsToMap_def AddMatchToMap_def QueryToMatch_def
  AddNavigationResultsToMatches_def NavigationToMatch_def SortAndCull_def
  UpdateStarredStateOfMatches_def CalculateRelevanceForWhatYouTyped_def
  CalculateRelevanceForHistory_def CalculateRelevanceForSuggestion_def
  CalculateRelevanceForNavigation_def history_base_score_def suggestion_base_score_def
  elapsed_time_examples score_discount_examples
  valid_default_provider_def valid_keyword_provider_def
  valid_suggest_for_default_provider_def valid_suggest_for_keyword_provider_def
  new_match_def ascii_lower_def by_relevance_then_contents_def find_str_def
  enumerate_eq_zip Let_def
  example_env_simps example_state_simps example_input_simps example_provider_simps
  example_profile_simps

subsection \<open>The relevance scorers\<close>

text \<open>
  Claim C3. The relevance of the match for what the user typed is 250 whenever a keyword
  provider is active; otherwise it is 1300 for an input of type \<open>UNKNOWN\<close>, \<open>QUERY\<close> or
  \<open>FORCED_QUERY\<close>, 1150 for \<open>REQUESTED_URL\<close> and 850 for \<open>URL\<close>. Any other type of input
  that reaches the scorer runs into \<^verbatim>\<open>NOTREACHED\<close>: the call fails instead of yielding a
  score, so that a score, when there is one, is one of these four.
\<close>

theorem C3_what_you_typed:
  "(valid_keyword_provider (m_providers st) \<longrightarrow>
      CalculateRelevanceForWhatYouTyped st = Inr 250) \<and>
   (\<not> valid_keyword_provider (m_providers st) \<longrightarrow>
      (input_type (m_input st) \<in> {UNKNOWN, QUERY, FORCED_QUERY} \<longrightarrow>
         CalculateRelevanceForWhatYouTyped st = Inr 1300) \<and>
      (input_type (m_input st) = REQUESTED_URL \<longrightarrow>
         CalculateRelevanceForWhatYouTyped st = Inr 1150) \<and>
      (input_type (m_input st) = URL \<longrightarrow>
         CalculateRelevanceForWhatYouTyped st = Inr 850) \<and>
      (input_type (m_input st) \<notin> {UNKNOWN, QUERY, FORCED_QUERY, REQUESTED_URL, URL} \<longrightarrow>
         CalculateRelevanceForWhatYouTyped st = Inl NotReached)) \<and>
   (\<forall>r. CalculateRelevanceForWhatYouTyped st = Inr r \<longrightarrow> r \<in> {250, 1300, 1150, 850})"
proof (cases "valid_keyword_provider (m_providers st)")
  case True
  then show ?thesis
    by (simp add: CalculateRelevanceForWhatYouTyped_def)
next
  case False
  then show ?thesis
    by (cases "input_type (m_input st)")
       (simp_all add: CalculateRelevanceForWhatYouTyped_def)
qed

theorem C3_what_you_typed_witness:
  "CalculateRelevanceForWhatYouTyped (example_state ''x'' REQUESTED_URL) = Inr 1150 \<and>
   CalculateRelevanceForWhatYouTyped (example_state ''x'' INVALID) = Inl NotReached"
  using C3_what_you_typed [of "example_state ''x'' REQUESTED_URL"]
        C3_what_you_typed [of "example_state ''x'' INVALID"]
  by (simp add: example_state_simps valid_keyword_provider_def example_input_def
        default_AutocompleteInput_def)

text \<open>
  Claim C4, as the code has it. The relevance of a history candidate is
  \<open>max 0 (base - discount)\<close>. The base is 200 for a provider that is not primary, 750 for a
  primary provider with an input of type \<open>URL\<close> and 1050 for a primary provider otherwise.
  The discount is computed in doubles: the elapsed seconds (not below 0) are raised to the
  double nearest to \<open>0.3\<close> by \<^verbatim>\<open>std::pow\<close>, the product with \<open>6.5\<close> is rounded, and the
  result is truncated. The relevance is never negative. With a \<^verbatim>\<open>std::pow\<close> that does not
  decrease in its first argument, a visit that lies further back never has the higher
  relevance. And where the double product is within 1 of \<open>6.5\<close> times the exact elapsed
  seconds (not below 0) to the power \<open>0.3\<close>, the discount is within 1 of the floor of that
  number.
\<close>

theorem C4_history_relevance:
  "CalculateRelevanceForHistory env st t is_keyword =
     max 0 ((if \<not> is_primary_provider env (m_providers st) is_keyword then 200
             else if input_type (m_input st) = URL then 750 else 1050) -
            static_cast_int
              (double_times 6.5
                 (pow env (max (InSecondsF (Now env - t)) 0) (round_double 0.3)))) \<and>
   0 \<le> CalculateRelevanceForHistory env st t is_keyword \<and>
   (pow_monotone env \<longrightarrow>
      (\<forall>t'. t' \<le> t \<longrightarrow>
         CalculateRelevanceForHistory env st t' is_keyword \<le>
         CalculateRelevanceForHistory env st t is_keyword)) \<and>
   (\<bar>double_times 6.5 (pow env (elapsed_time env t) (round_double 0.3)) -
     6.5 * (max (real_of_int (Now env - t) / 1000000) 0) powr 0.3\<bar> < 1 \<longrightarrow>
      \<bar>score_discount env (elapsed_time env t) -
       \<lfloor>6.5 * (max (real_of_int (Now env - t) / 1000000) 0) powr 0.3\<rfloor>\<bar> \<le> 1)"
proof (intro conjI allI impI)
  show "CalculateRelevanceForHistory env st t is_keyword =
     max 0 ((if \<not> is_primary_provider env (m_providers st) is_keyword then 200
             else if input_type (m_input st) = URL then 750 else 1050) -
            static_cast_int
              (double_times 6.5
                 (pow env (max (InSecondsF (Now env - t)) 0) (round_double 0.3))))"
    by (simp add: CalculateRelevanceForHistory_def history_base_score_def elapsed_time_def
          score_discount_def)
  show "0 \<le> CalculateRelevanceForHistory env st t is_keyword"
    by (simp add: CalculateRelevanceForHistory_def)
next
  fix t' assume m: "pow_monotone env" and "t' \<le> t"
  then have "elapsed_time env t \<le> elapsed_time env t'"
    by (intro elapsed_time_mono)
  then have "score_discount env (elapsed_time env t) \<le> score_discount env (elapsed_time env t')"
    by (rule score_discount_mono [OF m elapsed_time_nonneg])
  then show "CalculateRelevanceForHistory env st t' is_keyword \<le>
      CalculateRelevanceForHistory env st t is_keyword"
    by (simp add: CalculateRelevanceForHistory_def)
next
  assume "\<bar>double_times 6.5 (pow env (elapsed_time env t) (round_double 0.3)) -
     6.5 * (max (real_of_int (Now env - t) / 1000000) 0) powr 0.3\<bar> < 1"
  moreover have "0 \<le> 6.5 * (max (real_of_int (Now env - t) / 1000000) 0) powr 0.3"
    by simp
  ultimately show
    "\<bar>score_discount env (elapsed_time env t) -
      \<lfloor>6.5 * (max (real_of_int (Now env - t) / 1000000) 0) powr 0.3\<rfloor>\<bar> \<le> 1"
    unfolding score_discount_def by (intro static_cast_int_near)
qed

theorem C4_history_relevance_witness:
  "pow_monotone example_env \<and>
   CalculateRelevanceForHistory example_env (example_state ''x'' QUERY) 1000000 False = 1050 \<and>
   CalculateRelevanceForHistory example_env (example_state ''x'' QUERY) 0 False = 1044 \<and>
   CalculateRelevanceForHistory example_env (example_state ''x'' QUERY) 0 False \<le>
   CalculateRelevanceForHistory example_env (example_state ''x'' QUERY) 1000000 False \<and>
   \<bar>double_times 6.5 (pow example_env (elapsed_time example_env 0) (round_double 0.3)) -
    6.5 * (max (real_of_int (Now example_env - 0) / 1000000) 0) powr 0.3\<bar> < 1 \<and>
   \<bar>score_discount example_env (elapsed_time example_env 0) -
    \<lfloor>6.5 * (max (real_of_int (Now example_env - 0) / 1000000) 0) powr 0.3\<rfloor>\<bar> \<le> 1"
proof -
  have m: "pow_monotone example_env"
    by (rule pow_monotone_rounded) (simp add: example_env_simps)
  have e: "elapsed_time example_env 1000000 = 0" "elapsed_time example_env 0 = 1"
    by (simp_all add: elapsed_time_examples example_env_simps)
  have a: "\<bar>double_times 6.5 (pow example_env (elapsed_time example_env 0)
               (round_double 0.3)) -
            6.5 * (max (real_of_int (Now example_env - 0) / 1000000) 0) powr 0.3\<bar> < 1"
    by (simp add: e example_env_simps rounded_pow_0_1 double_times_examples)
  note h = C4_history_relevance [of example_env "example_state ''x'' QUERY" 0 False]
  note h0 = C4_history_relevance [of example_env "example_state ''x'' QUERY" 1000000 False,
              THEN conjunct1]
  note h1 = h [THEN conjunct1]
  from h0 have r0:
    "CalculateRelevanceForHistory example_env (example_state ''x'' QUERY) 1000000 False = 1050"
    by (simp add: example_state_simps example_env_simps valid_keyword_provider_def
          example_input_simps InSecondsF_examples rounded_pow_0_1 double_times_examples
          static_cast_int_examples)
  from h1 have r1:
    "CalculateRelevanceForHistory example_env (example_state ''x'' QUERY) 0 False = 1044"
    by (simp add: example_state_simps example_env_simps valid_keyword_provider_def
          example_input_simps InSecondsF_examples rounded_pow_0_1 double_times_examples
          static_cast_int_examples)
  have "CalculateRelevanceForHistory example_env (example_state ''x'' QUERY) 0 False \<le>
      CalculateRelevanceForHistory example_env (example_state ''x'' QUERY) 1000000 False"
    by (simp add: r0 r1)
  moreover from h [THEN conjunct2, THEN conjunct2, THEN conjunct2, rule_format, OF a] have
    "\<bar>score_discount example_env (elapsed_time example_env 0) -
      \<lfloor>6.5 * (max (real_of_int (Now example_env - 0) / 1000000) 0) powr 0.3\<rfloor>\<bar> \<le> 1" .
  ultimately show ?thesis using m r0 r1 a by (intro conjI)
qed

text \<open>
  The claim as given has the floor of \<open>6.5\<close> times the elapsed seconds to the power \<open>0.3\<close>
  for the discount. For a visit 1024 seconds back that is 52, and the relevance would be
  998. The exponent of the source is the double nearest to \<open>0.3\<close>, which is below \<open>0.3\<close>;
  the correctly rounded power of 1024 is the double below 8, the rounded product the
  double below 52, and the discount 51.
\<close>

theorem C4_history_relevance_counterexample:
  "CalculateRelevanceForHistory (example_env\<lparr>Now := 1024000000\<rparr>)
     (example_state ''x'' QUERY) 0 False = 999 \<and>
   max 0 (1050 - \<lfloor>6.5 * (max (real_of_int (1024000000 - 0) / 1000000) 0) powr 0.3\<rfloor>) = 998"
proof
  have "Now (example_env\<lparr>Now := 1024000000\<rparr>) = 1024000000"
    "pow (example_env\<lparr>Now := 1024000000\<rparr>) = rounded_pow"
    by (simp_all add: example_env_simps)
  then show "CalculateRelevanceForHistory (example_env\<lparr>Now := 1024000000\<rparr>)
     (example_state ''x'' QUERY) 0 False = 999"
    by (simp add: CalculateRelevanceForHistory_def history_base_score_def
          elapsed_time_examples score_discount_examples example_env_simps
          example_state_simps example_input_simps valid_keyword_provider_def)
  show "max 0 (1050 - \<lfloor>6.5 * (max (real_of_int (1024000000 - 0) / 1000000) 0) powr 0.3\<rfloor>)
    = 998"
    by (simp add: ideal_power_1024)
qed

text \<open>
  Claim C5. For a suggestion at the zero-based position \<open>result_number\<close> of
  \<open>num_results\<close> suggestions, the relevance is the base plus
  \<open>num_results - 1 - result_number\<close>, the base being 100 for a provider that is not
  primary, 300 for a primary provider with an input of type \<open>URL\<close> and 600 for a primary
  provider otherwise; a later position of the same source has a strictly smaller
  relevance.
\<close>

theorem C5_suggestion_relevance:
  "result_number < num_results \<longrightarrow>
     CalculateRelevanceForSuggestion env st num_results result_number is_keyword =
       Inr ((if \<not> is_primary_provider env (m_providers st) is_keyword then 100
             else if input_type (m_input st) = URL then 300 else 600) +
            (int num_results - 1 - int result_number)) \<and>
     (\<forall>later. result_number < later \<and> later < num_results \<longrightarrow>
        (\<exists>r r'. CalculateRelevanceForSuggestion env st num_results result_number is_keyword
                   = Inr r \<and>
                CalculateRelevanceForSuggestion env st num_results later is_keyword
                   = Inr r' \<and> r' < r))"
  by (auto simp add: CalculateRelevanceForSuggestion_def suggestion_base_score_def
        of_nat_diff)

theorem C5_suggestion_relevance_witness:
  "CalculateRelevanceForSuggestion example_env (example_state ''x'' QUERY) 3 0 False = Inr 602 \<and>
   CalculateRelevanceForSuggestion example_env (example_state ''x'' QUERY) 3 2 False = Inr 600"
  using C5_suggestion_relevance [of 0 3 example_env "example_state ''x'' QUERY" False]
        C5_suggestion_relevance [of 2 3 example_env "example_state ''x'' QUERY" False]
  by (simp add: example_state_simps example_env_simps valid_keyword_provider_def
        example_input_def)


subsection \<open>The suggest admissibility test\<close>

text \<open>
  Claim C7. With a profile that is not off the record, a provider with a suggest URL and
  the suggest preference enabled, an input of type \<open>FORCED_QUERY\<close> is always suitable.
  Every other input is suitable with a scheme other than http, https and ftp only when
  its type is \<open>QUERY\<close>; with one of these schemes it is rejected when it has a user
  name, a port, a query or a reference, and an https input with a path is rejected; the
  remaining inputs are suitable. When one of the three preconditions fails, nothing is
  suitable.
\<close>

theorem C7_suggest_gate:
  assumes "m_profile st = Some profile"
  shows
   "(IsOffTheRecord profile \<or>
     (\<not> valid_suggest_for_keyword_provider (m_providers st) \<and>
      \<not> valid_suggest_for_default_provider (m_providers st)) \<or>
     \<not> kSearchSuggestEnabled profile \<longrightarrow>
       IsQuerySuitableForSuggest st = Inr False) \<and>
    (\<not> IsOffTheRecord profile \<and>
     (valid_suggest_for_keyword_provider (m_providers st) \<or>
      valid_suggest_for_default_provider (m_providers st)) \<and>
     kSearchSuggestEnabled profile \<longrightarrow>
       (input_type (m_input st) = FORCED_QUERY \<longrightarrow>
          IsQuerySuitableForSuggest st = Inr True) \<and>
       (input_type (m_input st) \<noteq> FORCED_QUERY \<and>
        scheme (m_input st) \<notin> {''http'', ''https'', ''ftp''} \<longrightarrow>
          IsQuerySuitableForSuggest st = Inr (input_type (m_input st) = QUERY)) \<and>
       (input_type (m_input st) \<noteq> FORCED_QUERY \<and>
        scheme (m_input st) \<in> {''http'', ''https'', ''ftp''} \<and>
        \<not> is_nonempty (username (parts (m_input st))) \<and>
        \<not> is_nonempty (port (parts (m_input st))) \<and>
        \<not> is_nonempty (query (parts (m_input st))) \<and>
        \<not> is_nonempty (ref (parts (m_input st))) \<and>
        \<not> (scheme (m_input st) = ''https'' \<and> is_nonempty (path (parts (m_input st)))) \<longrightarrow>
          IsQuerySuitableForSuggest st = Inr True)) \<and>
    (input_type (m_input st) \<noteq> FORCED_QUERY \<and>
     scheme (m_input st) \<in> {''http'', ''https'', ''ftp''} \<and>
     (is_nonempty (username (parts (m_input st))) \<or>
      is_nonempty (port (parts (m_input st))) \<or>
      is_nonempty (query (parts (m_input st))) \<or>
      is_nonempty (ref (parts (m_input st)))) \<longrightarrow>
       IsQuerySuitableForSuggest st = Inr False) \<and>
    (input_type (m_input st) \<noteq> FORCED_QUERY \<and>
     scheme (m_input st) = ''https'' \<and> is_nonempty (path (parts (m_input st))) \<longrightarrow>
       IsQuerySuitableForSuggest st = Inr False)"
  using assms by (simp add: IsQuerySuitableForSuggest_def)

theorem C7_suggest_gate_witness:
  "IsQuerySuitableForSuggest https_state = Inr False \<and>
   IsQuerySuitableForSuggest (example_state ''x'' FORCED_QUERY) = Inr True \<and>
   IsQuerySuitableForSuggest (example_state ''x'' QUERY) = Inr True \<and>
   IsQuerySuitableForSuggest (example_state ''x'' UNKNOWN) = Inr False"
  using C7_suggest_gate [of https_state example_profile]
        C7_suggest_gate [of "example_state ''x'' FORCED_QUERY" example_profile]
        C7_suggest_gate [of "example_state ''x'' QUERY" example_profile]
        C7_suggest_gate [of "example_state ''x'' UNKNOWN" example_profile]
  by (simp add: https_state_def example_state_def SearchProvider_new_def example_profile_def
        example_input_def default_AutocompleteInput_def Providers_Set_def
        valid_suggest_for_default_provider_def valid_suggest_for_keyword_provider_def
        example_provider_def is_nonempty_def)

subsection \<open>The done flag\<close>

lemma AddNavigationResultsToMatches_shape:
  "AddNavigationResultsToMatches env ns k st = Inr st' \<Longrightarrow>
     \<exists>ms. st' = st\<lparr>m_matches := ms\<rparr>"
proof (cases ns)
  case Nil
  assume "AddNavigationResultsToMatches env ns k st = Inr st'"
  with Nil have "st' = st\<lparr>m_matches := m_matches st\<rparr>"
    by (simp add: AddNavigationResultsToMatches_def)
  then show ?thesis ..
next
  case (Cons n rest)
  assume "AddNavigationResultsToMatches env ns k st = Inr st'"
  with Cons show ?thesis
    by (auto simp add: AddNavigationResultsToMatches_def ebind_eq_Inr Let_def)
qed

lemma CombinedMatches_shape:
  assumes "CombinedMatches env st = Inr st1"
  shows "\<exists>ms. st1 = st\<lparr>m_matches := ms\<rparr>"
proof -
  from assms obtain mm :: MatchMap and st0 where
    a: "AddNavigationResultsToMatches env (m_keyword_navigation_results st) True
          (st\<lparr>m_matches := map snd mm\<rparr>) = Inr st0"
    and b: "AddNavigationResultsToMatches env (m_default_navigation_results st0) False st0
          = Inr st1"
    unfolding CombinedMatches_def ebind_eq_Inr by blast
  from AddNavigationResultsToMatches_shape [OF a] obtain ms0
    where "st0 = st\<lparr>m_matches := map snd mm\<rparr>\<lparr>m_matches := ms0\<rparr>" ..
  moreover from AddNavigationResultsToMatches_shape [OF b] obtain ms1
    where "st1 = st0\<lparr>m_matches := ms1\<rparr>" ..
  ultimately have "st1 = st\<lparr>m_matches := ms1\<rparr>" by simp
  then show ?thesis ..
qed

lemma ConvertResults_shape:
  assumes "ConvertResultsToAutocompleteMatches env st = Inr st'"
  shows "\<exists>ms. st' = st\<lparr>m_matches := ms,
                       m_done := (\<not> m_history_request_pending st \<and>
                                  m_suggest_results_pending st = 0)\<rparr>"
proof -
  from assms obtain st1 where a: "CombinedMatches env st = Inr st1"
    and b: "st' = st1\<lparr>m_matches := UpdateStarredStateOfMatches env
                                      (SortAndCull env (m_matches st1)),
                     m_done := (\<not> m_history_request_pending st1 \<and>
                                m_suggest_results_pending st1 = 0)\<rparr>"
    unfolding ConvertResultsToAutocompleteMatches_def ebind_eq_Inr Let_def by auto
  from CombinedMatches_shape [OF a] obtain ms where c: "st1 = st\<lparr>m_matches := ms\<rparr>" ..
  have "st' = st\<lparr>m_matches := UpdateStarredStateOfMatches env (SortAndCull env ms),
                 m_done := (\<not> m_history_request_pending st \<and>
                            m_suggest_results_pending st = 0)\<rparr>"
    unfolding b c by simp
  then show ?thesis ..
qed

lemma ConvertResults_fields:
  assumes "ConvertResultsToAutocompleteMatches env st = Inr st'"
  shows "m_done st' = (\<not> m_history_request_pending st \<and> m_suggest_results_pending st = 0)"
    and "m_history_request_pending st' = m_history_request_pending st"
    and "m_suggest_results_pending st' = m_suggest_results_pending st"
    and "m_history_request_consumer st' = m_history_request_consumer st"
proof -
  from ConvertResults_shape [OF assms] obtain ms where
    "st' = st\<lparr>m_matches := ms, m_done := (\<not> m_history_request_pending st \<and>
                                           m_suggest_results_pending st = 0)\<rparr>" ..
  then show "m_done st' = (\<not> m_history_request_pending st \<and> m_suggest_results_pending st = 0)"
    and "m_history_request_pending st' = m_history_request_pending st"
    and "m_suggest_results_pending st' = m_suggest_results_pending st"
    and "m_history_request_consumer st' = m_history_request_consumer st"
    by simp_all
qed

lemma parse_result_list_pending:
  "parse_result_list env k tys dl i vs st = (ok, st') \<Longrightarrow>
     m_history_request_pending st' = m_history_request_pending st \<and>
     m_suggest_results_pending st' = m_suggest_results_pending st \<and>
     m_history_request_consumer st' = m_history_request_consumer st"
proof (induction vs arbitrary: i st)
  case Nil
  then show ?case by simp
next
  case (Cons v vs)
  then show ?case
    by (auto simp add: push_suggest_result_def add_navigation_suggestion_def
          push_navigation_result_def
        split: option.splits if_splits dest!: Cons.IH)
qed

lemma ParseSuggestResults_pending:
  "ParseSuggestResults env v k txt st = (ok, st') \<Longrightarrow>
     m_history_request_pending st' = m_history_request_pending st \<and>
     m_suggest_results_pending st' = m_suggest_results_pending st \<and>
     m_history_request_consumer st' = m_history_request_consumer st"
  by (auto simp add: ParseSuggestResults_def Let_def
      split: Value.splits option.splits if_splits dest!: parse_result_list_pending)

lemma StoreSuggestResponse_pending:
  "m_history_request_pending (StoreSuggestResponse env k ok code root_val st) =
     m_history_request_pending st \<and>
   m_suggest_results_pending (StoreSuggestResponse env k ok code root_val st) =
     m_suggest_results_pending st"
  by (auto simp add: StoreSuggestResponse_def
      split: option.splits prod.splits dest!: ParseSuggestResults_pending)

lemma OnURLFetchComplete_Inr:
  assumes "OnURLFetchComplete env source ok code root_val st = Inr st2"
  shows "\<exists>st3 u. ConvertResultsToAutocompleteMatches env
                    (StoreSuggestResponse env
                       (is_keyword_source source
                          (st\<lparr>m_suggest_results_pending :=
                                m_suggest_results_pending st - 1\<rparr>))
                       ok code root_val
                       (st\<lparr>m_suggest_results_pending :=
                             m_suggest_results_pending st - 1\<rparr>)) = Inr st3 \<and>
                 st2 = st3\<lparr>listener_updates := u\<rparr>"
  using assms
  by (auto simp add: OnURLFetchComplete_def Let_def ebind_eq_Inr split: if_splits)

lemma StoreHistoryResults_pending:
  "m_history_request_pending (StoreHistoryResults handle results st) =
     (m_history_request_pending st \<and> length (m_history_request_consumer st) \<noteq> 1) \<and>
   m_suggest_results_pending (StoreHistoryResults handle results st) =
     m_suggest_results_pending st \<and>
   m_history_request_consumer (StoreHistoryResults handle results st) =
     m_history_request_consumer st"
  by (simp add: StoreHistoryResults_def Let_def)

lemma OnGotMostRecentKeywordSearchTerms_Inr:
  assumes "OnGotMostRecentKeywordSearchTerms env handle results st = Inr st3"
  shows "\<exists>st' u. ConvertResultsToAutocompleteMatches env
                    (StoreHistoryResults handle results st) = Inr st' \<and>
                 st3 = st'\<lparr>listener_updates := u\<rparr>"
  using assms
  by (auto simp add: OnGotMostRecentKeywordSearchTerms_def ebind_eq_Inr
      split: option.splits)

text \<open>
  Claim C8. After \<^verbatim>\<open>ConvertResultsToAutocompleteMatches\<close> the provider is done exactly
  when no history request is pending and the count of pending suggest fetches is zero.
  In \<^verbatim>\<open>OnURLFetchComplete\<close> the count that enters is the one already decremented for the
  fetch that completes; in \<^verbatim>\<open>OnGotMostRecentKeywordSearchTerms\<close> the history flag
  that enters is cleared when the completing request is the only one registered, while
  that request is still registered with the consumer.
\<close>

theorem C8_done_flag:
  "(ConvertResultsToAutocompleteMatches env st = Inr st1 \<longrightarrow>
      m_done st1 = (\<not> m_history_request_pending st1 \<and> m_suggest_results_pending st1 = 0) \<and>
      m_history_request_pending st1 = m_history_request_pending st \<and>
      m_suggest_results_pending st1 = m_suggest_results_pending st) \<and>
   (OnURLFetchComplete env source status_is_success response_code root_val st = Inr st2 \<longrightarrow>
      m_done st2 = (\<not> m_history_request_pending st2 \<and> m_suggest_results_pending st2 = 0) \<and>
      m_history_request_pending st2 = m_history_request_pending st \<and>
      m_suggest_results_pending st2 = m_suggest_results_pending st - 1) \<and>
   (OnGotMostRecentKeywordSearchTerms env handle results st = Inr st3 \<longrightarrow>
      m_done st3 = (\<not> m_history_request_pending st3 \<and> m_suggest_results_pending st3 = 0) \<and>
      m_history_request_pending st3 =
        (m_history_request_pending st \<and> length (m_history_request_consumer st) \<noteq> 1) \<and>
      m_history_request_consumer st3 = m_history_request_consumer st \<and>
      m_suggest_results_pending st3 = m_suggest_results_pending st)"
proof (intro conjI impI)
  assume a: "ConvertResultsToAutocompleteMatches env st = Inr st1"
  show "m_done st1 = (\<not> m_history_request_pending st1 \<and> m_suggest_results_pending st1 = 0)"
    and "m_history_request_pending st1 = m_history_request_pending st"
    and "m_suggest_results_pending st1 = m_suggest_results_pending st"
    by (simp_all add: ConvertResults_fields [OF a])
next
  assume "OnURLFetchComplete env source status_is_success response_code root_val st = Inr st2"
  from OnURLFetchComplete_Inr [OF this] obtain st' u where
    conv: "ConvertResultsToAutocompleteMatches env
             (StoreSuggestResponse env
                (is_keyword_source source
                   (st\<lparr>m_suggest_results_pending := m_suggest_results_pending st - 1\<rparr>))
                status_is_success response_code root_val
                (st\<lparr>m_suggest_results_pending := m_suggest_results_pending st - 1\<rparr>))
           = Inr st'"
    and st2: "st2 = st'\<lparr>listener_updates := u\<rparr>"
    by blast
  show "m_done st2 = (\<not> m_history_request_pending st2 \<and> m_suggest_results_pending st2 = 0)"
    and "m_history_request_pending st2 = m_history_request_pending st"
    and "m_suggest_results_pending st2 = m_suggest_results_pending st - 1"
    by (simp_all add: st2 ConvertResults_fields [OF conv] StoreSuggestResponse_pending)
next
  assume "OnGotMostRecentKeywordSearchTerms env handle results st = Inr st3"
  from OnGotMostRecentKeywordSearchTerms_Inr [OF this] obtain st' u where
    conv: "ConvertResultsToAutocompleteMatches env (StoreHistoryResults handle results st) = Inr st'"
    and st3: "st3 = st'\<lparr>listener_updates := u\<rparr>"
    by blast
  show "m_done st3 = (\<not> m_history_request_pending st3 \<and> m_suggest_results_pending st3 = 0)"
    and "m_history_request_pending st3 =
        (m_history_request_pending st \<and> length (m_history_request_consumer st) \<noteq> 1)"
    and "m_history_request_consumer st3 = m_history_request_consumer st"
    and "m_suggest_results_pending st3 = m_suggest_results_pending st"
    by (simp_all add: st3 ConvertResults_fields [OF conv] StoreHistoryResults_pending)
qed

subsection \<open>Start with an empty input\<close>

text \<open>
  Claim C10. When \<^verbatim>\<open>Start\<close> is called with a profile, an input that is not \<open>INVALID\<close>
  and has an empty text, and a default provider that supports replacement, it returns
  with exactly one match, the placeholder: its contents are the string
  \<^verbatim>\<open>IDS_EMPTY_KEYWORD_VALUE\<close>, not highlighted, and its description is the search
  description of the default provider, dimmed. The provider is done, without a history
  request and without a fetcher or a running timer, and with all stored results cleared.
\<close>

theorem C10_start_empty_input:
  assumes "m_profile st = Some profile"
    and "input_type input \<noteq> INVALID"
    and "input_text input = []"
    and "GetDefaultSearchProvider profile = Some d"
    and "SupportsReplacement env (Some d)"
  shows "\<exists>st'. Start env input minimal_changes st = Inr st' \<and>
           m_matches st' = [placeholder_match env d] \<and>
           (\<exists>m. m_matches st' = [m] \<and>
                contents m = EmptyKeywordValue env \<and>
                contents_class m = [(0, NONE)] \<and>
                description m = SearchDescription env (short_name d) \<and>
                description_class m = [(0, DIM)]) \<and>
           m_done st' \<and>
           next_handle st' = next_handle st \<and>
           m_history_request_consumer st' = [] \<and>
           \<not> m_history_request_pending st' \<and>
           next_fetcher st' = next_fetcher st \<and>
           m_keyword_fetcher st' = None \<and> m_default_fetcher st' = None \<and>
           \<not> timer_running st' \<and>
           m_suggest_results_pending st' = 0 \<and>
           \<not> m_have_history_results st' \<and> \<not> m_have_suggest_results st' \<and>
           m_keyword_history_results st' = [] \<and> m_default_history_results st' = [] \<and>
           m_keyword_suggest_results st' = [] \<and> m_default_suggest_results st' = [] \<and>
           m_keyword_navigation_results st' = [] \<and> m_default_navigation_results st' = []"
  using assms
  by (simp add: Start_def Stop_def StopHistory_def StopSuggest_def Let_def
        placeholder_match_def split: prod.splits)

subsection \<open>Examples for the done flag and the empty input\<close>

lemma history_callback_example:
  "OnGotMostRecentKeywordSearchTerms example_env 0 [] (example_state ''x'' QUERY)
     = Inr history_callback_state"
  by (simp add: OnGotMostRecentKeywordSearchTerms_def StoreHistoryResults_def
        history_callback_state_def eval_defs)

lemma fetch_example_store:
  "StoreSuggestResponse example_env False True 200
     (Some (ListValue [StringValue ''x'', ListValue []]))
     (history_done_state\<lparr>m_suggest_results_pending := 0\<rparr>)
   = history_done_state\<lparr>m_suggest_results_pending := 0, m_have_suggest_results := True\<rparr>"
  by (simp add: StoreSuggestResponse_def ParseSuggestResults_def ListValue_Get_def
        history_done_state_def history_callback_state_def example_state_def
        example_input_def SearchProvider_new_def default_AutocompleteInput_def)

lemma fetch_example_convert:
  "\<exists>st'. ConvertResultsToAutocompleteMatches example_env
           (history_done_state\<lparr>m_suggest_results_pending := 0,
                                m_have_suggest_results := True\<rparr>) = Inr st'"
  by (simp add: history_done_state_def history_callback_state_def eval_defs)

lemma fetch_example:
  "\<exists>st2. OnURLFetchComplete example_env 0 True 200
          (Some (ListValue [StringValue ''x'', ListValue []])) history_done_state = Inr st2"
proof -
  have a: "\<not> m_done history_done_state"
    "m_suggest_results_pending history_done_state = 1"
    "is_keyword_source 0 (history_done_state\<lparr>m_suggest_results_pending := 0\<rparr>) = False"
    by (simp_all add: history_done_state_def history_callback_state_def example_state_def
          is_keyword_source_def SearchProvider_new_def)
  from fetch_example_convert obtain st' where
    "ConvertResultsToAutocompleteMatches example_env
       (history_done_state\<lparr>m_suggest_results_pending := 0,
                            m_have_suggest_results := True\<rparr>) = Inr st'" ..
  then show ?thesis
    by (simp add: OnURLFetchComplete_def a fetch_example_store)
qed

theorem C8_done_flag_witness:
  "OnGotMostRecentKeywordSearchTerms example_env 0 [] (example_state ''x'' QUERY)
     = Inr history_callback_state \<and>
   \<not> m_done history_callback_state \<and>
   (\<exists>st2. OnURLFetchComplete example_env 0 True 200
            (Some (ListValue [StringValue ''x'', ListValue []])) history_done_state
          = Inr st2 \<and> m_done st2)"
proof -
  from fetch_example obtain st2 where e3: "OnURLFetchComplete example_env 0 True 200
            (Some (ListValue [StringValue ''x'', ListValue []])) history_done_state
          = Inr st2" ..
  have p: "m_history_request_pending (example_state ''x'' QUERY)"
       "length (m_history_request_consumer (example_state ''x'' QUERY)) = 1"
       "m_suggest_results_pending (example_state ''x'' QUERY) = 1"
       "\<not> m_history_request_pending history_done_state"
       "m_suggest_results_pending history_done_state = 1"
    by (simp_all add: example_state_def history_done_state_def history_callback_state_def)
  note h = C8_done_flag [of example_env "example_state ''x'' QUERY" _ _ _ _ _ _ 0 "[]"
               history_callback_state,
             THEN conjunct2, THEN conjunct2, rule_format, OF history_callback_example]
  from h p have a: "\<not> m_done history_callback_state" by simp
  note f = C8_done_flag [of example_env history_done_state _ 0 True 200
               "Some (ListValue [StringValue ''x'', ListValue []])" st2,
             THEN conjunct2, THEN conjunct1, rule_format, OF e3]
  from f p have b: "m_done st2" by simp
  from history_callback_example a e3 b show ?thesis by blast
qed

theorem C10_start_empty_input_witness:
  "\<exists>st'. Start example_env (example_input [] FORCED_QUERY) False (example_state ''x'' QUERY)
           = Inr st' \<and>
         m_matches st' = [placeholder_match example_env example_provider] \<and>
         map (\<lambda>m. (contents m, contents_class m, description m, description_class m))
           (m_matches st') =
           [(''<enter query>'', [(0, NONE)], ''Example Search'', [(0, DIM)])] \<and>
         m_done st' \<and> m_history_request_consumer st' = [] \<and>
         m_default_fetcher st' = None \<and> next_handle st' = 1 \<and> next_fetcher st' = 1"
proof -
  have h1: "m_profile (example_state ''x'' QUERY) = Some example_profile"
    by (simp add: example_state_def SearchProvider_new_def)
  have h2: "input_type (example_input [] FORCED_QUERY) \<noteq> INVALID"
    by (simp add: example_input_def)
  have h3: "input_text (example_input [] FORCED_QUERY) = []"
    by (simp add: example_input_def)
  have h4: "GetDefaultSearchProvider example_profile = Some example_provider"
    by (simp add: example_profile_def)
  have h5: "SupportsReplacement example_env (Some example_provider)"
    by (simp add: example_env_def example_provider_def)
  have h6: "next_handle (example_state ''x'' QUERY) = 1"
       "next_fetcher (example_state ''x'' QUERY) = 1"
    by (simp_all add: example_state_def)
  from C10_start_empty_input [OF h1 h2 h3 h4 h5, of False] h6
  show ?thesis by (auto simp add: example_env_simps example_provider_simps)
qed

subsection \<open>The length of the sorted list\<close>

lemma length_insert_by [simp]: "length (insert_by cmp x xs) = Suc (length xs)"
  by (induction xs) simp_all

lemma length_sort_by [simp]: "length (sort_by cmp xs) = length xs"
  by (induction xs) simp_all

lemma length_SortAndCull: "length (SortAndCull env ms) \<le> kMaxMatches env + 1"
  by (simp add: SortAndCull_def Let_def)


subsection \<open>One match for each key\<close>

lemma keys_sorted_Nil [simp]: "keys_sorted []"
  by (simp add: keys_sorted_def)

lemma keys_sorted_Cons:
  "keys_sorted ((k, v) # mm) \<longleftrightarrow> (\<forall>k' \<in> set (map fst mm). k < k') \<and> keys_sorted mm"
  by (simp add: keys_sorted_def)

lemma keys_sorted_distinct: "keys_sorted mm \<Longrightarrow> distinct (map fst mm)"
  by (simp add: keys_sorted_def strict_sorted_iff)

lemma map_insert_keys:
  "map_insert k v mm = (mm', stored, inserted) \<Longrightarrow>
     set (map fst mm') = insert k (set (map fst mm))"
proof (induction mm arbitrary: mm' stored inserted)
  case Nil
  then show ?case by auto
next
  case (Cons p mm)
  obtain k' v' where p: "p = (k', v')" by (cases p)
  show ?case
  proof (cases "k < k' \<or> k = k'")
    case True
    with Cons.prems p show ?thesis by (force split: if_splits)
  next
    case False
    obtain rest' old ins where r: "map_insert k v mm = (rest', old, ins)"
      by (cases "map_insert k v mm")
    from Cons.IH [of rest' old ins, OF r]
    have "set (map fst rest') = insert k (set (map fst mm))" .
    moreover from Cons.prems p False r have "mm' = (k', v') # rest'" by simp
    ultimately show ?thesis using p by auto
  qed
qed

lemma map_insert_sorted:
  "keys_sorted mm \<Longrightarrow> map_insert k v mm = (mm', stored, inserted) \<Longrightarrow> keys_sorted mm'"
proof (induction mm arbitrary: mm' stored inserted)
  case Nil
  then show ?case by (auto simp add: keys_sorted_def)
next
  case (Cons p mm)
  obtain k' v' where p: "p = (k', v')" by (cases p)
  from Cons.prems p have s: "keys_sorted mm" and lt: "\<forall>x \<in> set (map fst mm). k' < x"
    by (simp_all add: keys_sorted_Cons)
  show ?case
  proof (cases "k < k'")
    case True
    with Cons.prems(2) p have "mm' = (k, v) # (k', v') # mm" by auto
    moreover from True lt have "\<forall>x \<in> set (map fst mm). k < x" by auto
    ultimately show ?thesis using True s lt
      by (simp add: keys_sorted_Cons)
  next
    case False
    note nless = this
    show ?thesis
    proof (cases "k = k'")
      case True
      with Cons.prems p show ?thesis by auto
    next
      case False
      obtain rest' old ins where r: "map_insert k v mm = (rest', old, ins)"
        by (cases "map_insert k v mm")
      from Cons.IH [of rest' old ins, OF s r] have "keys_sorted rest'" .
      moreover from map_insert_keys [OF r] lt nless False
      have "\<forall>x \<in> set (map fst rest'). k' < x" by auto
      moreover from Cons.prems(2) p nless False r have "mm' = (k', v') # rest'" by simp
      ultimately show ?thesis by (simp add: keys_sorted_Cons)
    qed
  qed
qed

lemma map_insert_lookup:
  "keys_sorted mm \<Longrightarrow> map_insert k v mm = (mm', stored, inserted) \<Longrightarrow>
     (case map_of mm k of
        None \<Rightarrow> inserted \<and> stored = v \<and> map_of mm' = (map_of mm)(k \<mapsto> v)
      | Some old \<Rightarrow> \<not> inserted \<and> stored = old \<and> mm' = mm)"
proof (induction mm arbitrary: mm' stored inserted)
  case Nil
  then show ?case by auto
next
  case (Cons p mm)
  obtain k' v' where p: "p = (k', v')" by (cases p)
  from Cons.prems p have s: "keys_sorted mm" and lt: "\<forall>x \<in> set (map fst mm). k' < x"
    by (simp_all add: keys_sorted_Cons)
  show ?case
  proof (cases "k < k'")
    case True
    with lt have "k \<notin> fst ` set mm" by auto
    then have "map_of mm k = None" by (simp add: map_of_eq_None_iff)
    with True Cons.prems p show ?thesis by auto
  next
    case False
    note nless = this
    show ?thesis
    proof (cases "k = k'")
      case True
      with Cons.prems p show ?thesis by auto
    next
      case False
      obtain rest' old ins where r: "map_insert k v mm = (rest', old, ins)"
        by (cases "map_insert k v mm")
      from Cons.prems(2) p nless False r
      have eq: "mm' = (k', v') # rest'" "stored = old" "inserted = ins" by simp_all
      from Cons.IH [of rest' old ins, OF s r] False p eq show ?thesis
        by (auto split: option.splits)
    qed
  qed
qed

lemma map_assign_keys [simp]: "map fst (map_assign k v mm) = map fst mm"
  by (induction mm) auto

lemma map_assign_lookup:
  "map_of (map_assign k v mm) k' =
     (if k' = k \<and> k \<in> set (map fst mm) then Some v else map_of mm k')"
  by (induction mm) (fastforce simp add: image_iff)+


lemma QueryToMatch_fields [simp]:
  "relevance (QueryToMatch env st q r t a k) = r"
  "contents (QueryToMatch env st q r t a k) = q"
  "match_type (QueryToMatch env st q r t a k) = t"
  by (simp_all add: QueryToMatch_def Let_def new_match_def)

lemma candidate_match_fields [simp]:
  "relevance (candidate_match env st c) = cand_relevance c"
  "contents (candidate_match env st c) = cand_query c"
  "match_type (candidate_match env st c) = cand_type c"
  by (simp_all add: candidate_match_def)

lemma AddCandidate_step:
  assumes "keys_sorted mm" and "AddCandidate env st mm c = Inr mm'"
  shows "keys_sorted mm'"
    and "map_of mm' k =
           (if k = cand_key env c
            then keep_best (map_of mm k) (candidate_match env st c)
            else map_of mm k)"
proof -
  obtain mm1 stored inserted where
    ins: "map_insert (cand_key env c) (candidate_match env st c) mm = (mm1, stored, inserted)"
    by (cases "map_insert (cand_key env c) (candidate_match env st c) mm")
  from assms(2) ins have mm': "mm' =
      (if \<not> inserted \<and> cand_relevance c > relevance stored
       then map_assign (cand_key env c) (candidate_match env st c) mm1 else mm1)"
    by (auto simp add: AddCandidate_def AddMatchToMap_def candidate_match_def cand_key_def
          Let_def split: if_splits)
  from map_insert_sorted [OF assms(1) ins] have s1: "keys_sorted mm1" .
  then show "keys_sorted mm'"
    by (simp add: mm' keys_sorted_def)
  note keys = map_insert_keys [OF ins]
  note look = map_insert_lookup [OF assms(1) ins]
  show "map_of mm' k =
           (if k = cand_key env c
            then keep_best (map_of mm k) (candidate_match env st c)
            else map_of mm k)"
  proof (cases "map_of mm (cand_key env c)")
    case None
    with look show ?thesis
      by (simp add: mm')
  next
    case (Some old)
    with look have "\<not> inserted" "stored = old" "mm1 = mm" by simp_all
    moreover from Some have "cand_key env c \<in> set (map fst mm)"
      by (metis map_of_eq_None_iff option.distinct(1) set_map)
    ultimately show ?thesis using Some
      by (simp add: mm' map_assign_lookup)
  qed
qed

lemma AddCandidates_Nil [simp]: "AddCandidates env st [] mm = Inr mm"
  by (simp add: AddCandidates_def)

lemma AddCandidates_Nil_fun: "AddCandidates env st [] = Inr"
  by (simp add: fun_eq_iff)

lemma ebind_Inr_right [simp]: "ebind m Inr = m"
  by (cases m) simp_all

lemma AddCandidates_Cons [simp]:
  "AddCandidates env st (c # cs) mm =
     ebind (AddCandidate env st mm c) (AddCandidates env st cs)"
  by (simp add: AddCandidates_def [abs_def])

lemma AddCandidates_append:
  "AddCandidates env st (xs @ ys) mm =
     ebind (AddCandidates env st xs mm) (AddCandidates env st ys)"
proof (induction xs arbitrary: mm)
  case Nil
  show ?case by simp
next
  case (Cons x xs)
  show ?case
    by (cases "AddCandidate env st mm x") (simp_all add: Cons.IH)
qed

lemma AddCandidates_append_fun:
  "AddCandidates env st (xs @ ys) =
     (\<lambda>mm. ebind (AddCandidates env st xs mm) (AddCandidates env st ys))"
  by (simp add: fun_eq_iff AddCandidates_append)

lemma AddCandidates_lookup:
  assumes "keys_sorted mm" and "AddCandidates env st cs mm = Inr mm'"
  shows "keys_sorted mm' \<and>
         (\<forall>k. map_of mm' k =
               foldl keep_best (map_of mm k)
                 (map (candidate_match env st) (filter (\<lambda>c. cand_key env c = k) cs)))"
  using assms
proof (induction cs arbitrary: mm)
  case Nil
  then show ?case by simp
next
  case (Cons c cs)
  from Cons.prems(2) obtain mm1 where
    a: "AddCandidate env st mm c = Inr mm1" and b: "AddCandidates env st cs mm1 = Inr mm'"
    by (auto simp add: ebind_eq_Inr)
  note step = AddCandidate_step [OF Cons.prems(1) a]
  from Cons.IH [OF step(1) b] step(2) show ?case
    by simp
qed

text \<open>
  Of a non-empty list of matches, \<open>keep_best\<close> keeps the first one among those of the
  highest relevance.
\<close>

lemma keep_best_first_maximum:
  "ms \<noteq> [] \<Longrightarrow>
     \<exists>i < length ms. foldl keep_best None ms = Some (ms ! i) \<and>
        (\<forall>j < length ms. relevance (ms ! j) \<le> relevance (ms ! i)) \<and>
        (\<forall>j < i. relevance (ms ! j) < relevance (ms ! i))"
proof (induction ms rule: rev_induct)
  case Nil
  then show ?case by simp
next
  case (snoc m ms)
  show ?case
  proof (cases "ms = []")
    case True
    then show ?thesis by simp
  next
    case False
    from snoc.IH [OF False] obtain i where i: "i < length ms"
      and best: "foldl keep_best None ms = Some (ms ! i)"
      and ge: "\<forall>j < length ms. relevance (ms ! j) \<le> relevance (ms ! i)"
      and first: "\<forall>j < i. relevance (ms ! j) < relevance (ms ! i)"
      by blast
    show ?thesis
    proof (cases "relevance m > relevance (ms ! i)")
      case True
      have lt: "relevance (ms ! j) < relevance m" if "j < length ms" for j
      proof -
        from ge that have "relevance (ms ! j) \<le> relevance (ms ! i)" by simp
        with True show ?thesis by simp
      qed
      have "foldl keep_best None (ms @ [m]) = Some ((ms @ [m]) ! length ms)"
        using best True by simp
      moreover have "\<forall>j < length (ms @ [m]).
          relevance ((ms @ [m]) ! j) \<le> relevance ((ms @ [m]) ! length ms)"
        using lt by (auto simp add: nth_append less_Suc_eq intro: less_imp_le)
      moreover have "\<forall>j < length ms.
          relevance ((ms @ [m]) ! j) < relevance ((ms @ [m]) ! length ms)"
        using lt by (simp add: nth_append)
      ultimately show ?thesis
        by (intro exI [of _ "length ms"]) simp
    next
      case False
      have "foldl keep_best None (ms @ [m]) = Some ((ms @ [m]) ! i)"
        using best False i by (simp add: nth_append)
      moreover have "\<forall>j < length (ms @ [m]).
          relevance ((ms @ [m]) ! j) \<le> relevance ((ms @ [m]) ! i)"
        using ge False i by (auto simp add: nth_append less_Suc_eq)
      moreover have "\<forall>j < i. relevance ((ms @ [m]) ! j) < relevance ((ms @ [m]) ! i)"
        using first i by (auto simp add: nth_append)
      ultimately show ?thesis
        using i by (intro exI [of _ i]) simp
    qed
  qed
qed


lemma foldl_err_map:
  "foldl_err f s (map g xs) = foldl_err (\<lambda>s x. f s (g x)) s xs"
proof (induction xs arbitrary: s)
  case Nil
  show ?case by simp
next
  case (Cons x xs)
  show ?case by (cases "f s (g x)") (simp_all add: Cons.IH)
qed

lemma foldl_err_cong:
  "(\<And>s x. x \<in> set xs \<Longrightarrow> f s x = g s x) \<Longrightarrow> foldl_err f s xs = foldl_err g s xs"
proof (induction xs arbitrary: s)
  case Nil
  show ?case by simp
next
  case (Cons x xs)
  have "f s x = g s x" by (rule Cons.prems) simp
  moreover have "foldl_err f s' xs = foldl_err g s' xs" for s'
    by (rule Cons.IH) (simp add: Cons.prems)
  ultimately show ?case by simp
qed

lemma AddHistoryResultsToMap_candidates:
  "AddHistoryResultsToMap env st results is_keyword d mm =
     AddCandidates env st (history_candidates env st results is_keyword d) mm"
  by (simp add: AddHistoryResultsToMap_def AddCandidates_def history_candidates_def
        foldl_err_map AddCandidate_def)

lemma AddSuggestResultsToMap_candidates:
  "AddSuggestResultsToMap env st suggest_results is_keyword d mm =
     AddCandidates env st (suggest_candidates env st suggest_results is_keyword) mm"
proof -
  have "foldl_err
          (\<lambda>m (i, s).
             ebind (CalculateRelevanceForSuggestion env st (length suggest_results) i
                      is_keyword)
               (\<lambda>rel. AddMatchToMap env st s rel SEARCH_SUGGEST (int i) is_keyword m))
          mm (enumerate 0 suggest_results) =
        foldl_err
          (\<lambda>m p. AddMatchToMap env st (snd p)
                    (suggestion_base_score env st is_keyword +
                     int (length suggest_results - 1 - fst p))
                    SEARCH_SUGGEST (int (fst p)) is_keyword m)
          mm (enumerate 0 suggest_results)"
    by (rule foldl_err_cong)
       (auto simp add: in_set_enumerate_eq CalculateRelevanceForSuggestion_def)
  then show ?thesis
    by (simp add: AddSuggestResultsToMap_def AddCandidates_def suggest_candidates_def
          foldl_err_map AddCandidate_def case_prod_beta)
qed

lemma ConvertResultsToMatchMap_eq:
  assumes "\<not> (valid_default_provider (m_providers st) \<and>
              isl (CalculateRelevanceForWhatYouTyped st))"
  shows "ConvertResultsToMatchMap env st = AddCandidates env st (pass_candidates env st) []"
proof -
  have "(if valid_default_provider (m_providers st)
         then ebind (CalculateRelevanceForWhatYouTyped st)
                (\<lambda>rel. AddMatchToMap env st (input_text (m_input st)) rel
                         SEARCH_WHAT_YOU_TYPED
                         (if m_default_suggest_results st = []
                          then NO_SUGGESTIONS_AVAILABLE env
                          else NO_SUGGESTION_CHOSEN env) False [])
         else Inr []) = AddCandidates env st (typed_candidates env st) []"
    using assms
    by (cases "CalculateRelevanceForWhatYouTyped st")
       (auto simp add: typed_candidates_def AddCandidate_def AddCandidates_Nil_fun)
  then show ?thesis
    by (simp add: ConvertResultsToMatchMap_def pass_candidates_def Let_def
          AddCandidates_append_fun AddHistoryResultsToMap_candidates
          AddSuggestResultsToMap_candidates split del: if_split)
qed

lemma ConvertResultsToMatchMap_candidates:
  assumes "ConvertResultsToMatchMap env st = Inr mm"
  shows "AddCandidates env st (pass_candidates env st) [] = Inr mm"
proof -
  have "\<not> (valid_default_provider (m_providers st) \<and>
           isl (CalculateRelevanceForWhatYouTyped st))"
    using assms
    by (cases "CalculateRelevanceForWhatYouTyped st")
       (auto simp add: ConvertResultsToMatchMap_def Let_def)
  from ConvertResultsToMatchMap_eq [OF this] assms show ?thesis by simp
qed

text \<open>
  Claim C2. The map of a pass is the result of adding the candidates of the pass one
  after the other to the empty map. Adding a candidate whose key is new stores its match;
  adding one whose key is present replaces the stored match only when the relevance of
  the new one is strictly higher. Hence the keys of the final map are distinct, a key is
  present exactly when some candidate has it, and the match stored under a key is that
  of the first candidate, in the order of insertion, among those of the highest
  relevance with this key: its relevance is at least that of every candidate it
  displaced, and strictly higher than that of every candidate inserted before it.
\<close>

theorem C2_one_survivor_per_key:
  "(ConvertResultsToMatchMap env st = Inr mm0 \<longrightarrow>
      AddCandidates env st (pass_candidates env st) [] = Inr mm0) \<and>
   (keys_sorted mm1 \<and> AddCandidate env st mm1 c = Inr mm2 \<longrightarrow>
      keys_sorted mm2 \<and>
      map_of mm2 (cand_key env c) =
        keep_best (map_of mm1 (cand_key env c)) (candidate_match env st c)) \<and>
   (AddCandidates env st cs [] = Inr mm \<longrightarrow>
      distinct (map fst mm) \<and>
      (\<forall>k. let ds = filter (\<lambda>c. cand_key env c = k) cs in
           if ds = [] then map_of mm k = None
           else \<exists>i < length ds.
                  map_of mm k = Some (candidate_match env st (ds ! i)) \<and>
                  (\<forall>j < length ds. cand_relevance (ds ! j) \<le> cand_relevance (ds ! i)) \<and>
                  (\<forall>j < i. cand_relevance (ds ! j) < cand_relevance (ds ! i))))"
proof (intro conjI impI)
  assume "ConvertResultsToMatchMap env st = Inr mm0"
  then show "AddCandidates env st (pass_candidates env st) [] = Inr mm0"
    by (rule ConvertResultsToMatchMap_candidates)
next
  assume "keys_sorted mm1 \<and> AddCandidate env st mm1 c = Inr mm2"
  then have a: "keys_sorted mm1" and b: "AddCandidate env st mm1 c = Inr mm2" by simp_all
  show "keys_sorted mm2" by (rule AddCandidate_step(1) [OF a b])
  show "map_of mm2 (cand_key env c) =
        keep_best (map_of mm1 (cand_key env c)) (candidate_match env st c)"
    by (simp add: AddCandidate_step(2) [OF a b])
next
  assume a: "AddCandidates env st cs [] = Inr mm"
  note inv = AddCandidates_lookup [OF keys_sorted_Nil a]
  from inv show "distinct (map fst mm)"
    by (simp add: keys_sorted_distinct)
  show "\<forall>k. let ds = filter (\<lambda>c. cand_key env c = k) cs in
           if ds = [] then map_of mm k = None
           else \<exists>i < length ds.
                  map_of mm k = Some (candidate_match env st (ds ! i)) \<and>
                  (\<forall>j < length ds. cand_relevance (ds ! j) \<le> cand_relevance (ds ! i)) \<and>
                  (\<forall>j < i. cand_relevance (ds ! j) < cand_relevance (ds ! i))"
  proof
    fix k
    define ds where "ds = filter (\<lambda>c. cand_key env c = k) cs"
    from inv have look: "map_of mm k = foldl keep_best None (map (candidate_match env st) ds)"
      by (simp add: ds_def)
    have "if ds = [] then map_of mm k = None
          else \<exists>i < length ds.
                  map_of mm k = Some (candidate_match env st (ds ! i)) \<and>
                  (\<forall>j < length ds. cand_relevance (ds ! j) \<le> cand_relevance (ds ! i)) \<and>
                  (\<forall>j < i. cand_relevance (ds ! j) < cand_relevance (ds ! i))"
    proof (cases "ds = []")
      case True
      with look show ?thesis by simp
    next
      case False
      then have "map (candidate_match env st) ds \<noteq> []" by simp
      from keep_best_first_maximum [OF this] look False show ?thesis
        by auto
    qed
    then show "let ds = filter (\<lambda>c. cand_key env c = k) cs in
           if ds = [] then map_of mm k = None
           else \<exists>i < length ds.
                  map_of mm k = Some (candidate_match env st (ds ! i)) \<and>
                  (\<forall>j < length ds. cand_relevance (ds ! j) \<le> cand_relevance (ds ! i)) \<and>
                  (\<forall>j < i. cand_relevance (ds ! j) < cand_relevance (ds ! i))"
      unfolding ds_def Let_def .
  qed
qed

theorem C2_one_survivor_per_key_witness:
  "\<exists>mm. AddCandidates example_env (example_state ''f'' QUERY)
           [history_candidate ''Foo'' 5, history_candidate ''Bar'' 1,
            history_candidate ''foo'' 5, history_candidate ''bar'' 2] [] = Inr mm \<and>
        map (\<lambda>(k, m). (k, contents m, relevance m)) mm =
          [(''bar'', ''bar'', 2), (''foo'', ''Foo'', 5)] \<and>
        distinct (map fst mm)"
  using C2_one_survivor_per_key [of example_env "example_state ''f'' QUERY" _ "[]"
          "history_candidate ''Foo'' 5" _
          "[history_candidate ''Foo'' 5, history_candidate ''Bar'' 1,
            history_candidate ''foo'' 5, history_candidate ''bar'' 2]"]
  by (simp add: AddCandidates_def AddCandidate_def history_candidate_def eval_defs)


subsection \<open>The order of the matches\<close>

lemma set_insert_by [simp]: "set (insert_by cmp x xs) = insert x (set xs)"
  by (induction xs) auto

lemma set_sort_by [simp]: "set (sort_by cmp xs) = set xs"
  by (induction xs) auto

lemma mset_insert_by [simp]: "mset (insert_by cmp x xs) = add_mset x (mset xs)"
  by (induction xs) auto

lemma mset_sort_by [simp]: "mset (sort_by cmp xs) = mset xs"
  by (induction xs) auto




















lemma NavigationToMatch_fields [simp]:
  "relevance (NavigationToMatch env st n r k) = r"
  "match_type (NavigationToMatch env st n r k) = NAVSUGGEST"
  by (simp_all add: NavigationToMatch_def Let_def new_match_def)












subsection \<open>A pass returns, and the number of its matches\<close>

lemma AddCandidate_returns:
  "url_supports_replacement
     (if cand_is_keyword c then m_cached_keyword_provider (m_providers st)
      else m_cached_default_provider (m_providers st)) \<Longrightarrow>
   \<exists>mm'. AddCandidate env st mm c = Inr mm'"
  by (simp add: AddCandidate_def AddMatchToMap_def Let_def split: prod.splits)

lemma AddCandidates_returns:
  "\<forall>c \<in> set cs. url_supports_replacement
     (if cand_is_keyword c then m_cached_keyword_provider (m_providers st)
      else m_cached_default_provider (m_providers st)) \<Longrightarrow>
   \<exists>mm'. AddCandidates env st cs mm = Inr mm'"
proof (induction cs arbitrary: mm)
  case Nil
  show ?case by simp
next
  case (Cons c cs)
  from Cons.prems AddCandidate_returns [of c st env mm] obtain mm1 where
    "AddCandidate env st mm c = Inr mm1" by auto
  moreover from Cons.prems Cons.IH [of mm1] obtain mm' where
    "AddCandidates env st cs mm1 = Inr mm'" by auto
  ultimately show ?case by simp
qed

lemma CalculateRelevanceForWhatYouTyped_returns:
  "valid_keyword_provider (m_providers st) \<or> input_type (m_input st) \<noteq> INVALID \<Longrightarrow>
     \<not> isl (CalculateRelevanceForWhatYouTyped st)"
  by (cases "input_type (m_input st)") (auto simp add: CalculateRelevanceForWhatYouTyped_def)

lemma typed_candidates_default:
  assumes "c \<in> set (typed_candidates env st)"
  shows "\<not> cand_is_keyword c \<and> valid_default_provider (m_providers st)"
  using assms unfolding typed_candidates_def
  by (cases "CalculateRelevanceForWhatYouTyped st";
      cases "valid_default_provider (m_providers st)") auto

lemma history_candidates_source:
  "c \<in> set (history_candidates env st rs k d) \<Longrightarrow> cand_is_keyword c = k \<and> rs \<noteq> []"
  by (auto simp add: history_candidates_def)

lemma suggest_candidates_source:
  "c \<in> set (suggest_candidates env st rs k) \<Longrightarrow> cand_is_keyword c = k \<and> rs \<noteq> []"
  by (auto simp add: suggest_candidates_def)

lemma pass_candidates_supported:
  assumes "pass_preconditions st" and "c \<in> set (pass_candidates env st)"
  shows "url_supports_replacement
           (if cand_is_keyword c then m_cached_keyword_provider (m_providers st)
            else m_cached_default_provider (m_providers st))"
proof -
  from assms(2) consider
      "c \<in> set (typed_candidates env st)"
    | d where "c \<in> set (history_candidates env st (m_keyword_history_results st) True d)"
    | d where "c \<in> set (history_candidates env st (m_default_history_results st) False d)"
    | "c \<in> set (suggest_candidates env st (m_keyword_suggest_results st) True)"
    | "c \<in> set (suggest_candidates env st (m_default_suggest_results st) False)"
    by (auto simp add: pass_candidates_def Let_def)
  then show ?thesis
  proof cases
    case 1
    from typed_candidates_default [OF 1] assms(1) show ?thesis
      by (simp add: pass_preconditions_def)
  next
    case 2
    from history_candidates_source [OF 2] assms(1) show ?thesis
      by (simp add: pass_preconditions_def)
  next
    case 3
    from history_candidates_source [OF 3] assms(1) show ?thesis
      by (simp add: pass_preconditions_def)
  next
    case 4
    from suggest_candidates_source [OF 4] assms(1) show ?thesis
      by (simp add: pass_preconditions_def)
  next
    case 5
    from suggest_candidates_source [OF 5] assms(1) show ?thesis
      by (simp add: pass_preconditions_def)
  qed
qed

lemma ConvertResultsToMatchMap_returns:
  assumes "pass_preconditions st"
  shows "\<exists>mm. ConvertResultsToMatchMap env st = Inr mm"
proof -
  from assms have "\<not> (valid_default_provider (m_providers st) \<and>
                      isl (CalculateRelevanceForWhatYouTyped st))"
    using CalculateRelevanceForWhatYouTyped_returns [of st]
    by (auto simp add: pass_preconditions_def)
  then have eq: "ConvertResultsToMatchMap env st =
                   AddCandidates env st (pass_candidates env st) []"
    by (rule ConvertResultsToMatchMap_eq)
  have "\<forall>c \<in> set (pass_candidates env st). url_supports_replacement
     (if cand_is_keyword c then m_cached_keyword_provider (m_providers st)
      else m_cached_default_provider (m_providers st))"
    using pass_candidates_supported [OF assms] by blast
  from AddCandidates_returns [OF this] eq show ?thesis by simp
qed

lemma AddNavigationResultsToMatches_returns:
  "\<exists>st'. AddNavigationResultsToMatches env (m_keyword_navigation_results st) True st
           = Inr st'"
  "\<exists>st'. AddNavigationResultsToMatches env (m_default_navigation_results st) False st
           = Inr st'"
proof -
  show "\<exists>st'. AddNavigationResultsToMatches env (m_keyword_navigation_results st) True st
           = Inr st'"
    by (cases "m_keyword_navigation_results st")
       (simp_all add: AddNavigationResultsToMatches_def CalculateRelevanceForNavigation_def)
  show "\<exists>st'. AddNavigationResultsToMatches env (m_default_navigation_results st) False st
           = Inr st'"
    by (cases "m_default_navigation_results st")
       (simp_all add: AddNavigationResultsToMatches_def CalculateRelevanceForNavigation_def)
qed

lemma ConvertResults_returns:
  assumes "pass_preconditions st"
  shows "\<exists>st'. ConvertResultsToAutocompleteMatches env st = Inr st'"
proof -
  from ConvertResultsToMatchMap_returns [OF assms] obtain mm where
    mm: "ConvertResultsToMatchMap env st = Inr mm" ..
  from AddNavigationResultsToMatches_returns(1) [of env "st\<lparr>m_matches := map snd mm\<rparr>"]
  obtain st0 where a: "AddNavigationResultsToMatches env (m_keyword_navigation_results st)
      True (st\<lparr>m_matches := map snd mm\<rparr>) = Inr st0"
    by auto
  from AddNavigationResultsToMatches_returns(2) [of env st0]
  obtain st1 where b: "AddNavigationResultsToMatches env (m_default_navigation_results st0)
      False st0 = Inr st1"
    by auto
  from mm a b have "CombinedMatches env st = Inr st1"
    by (simp add: CombinedMatches_def)
  then show ?thesis
    by (simp add: ConvertResultsToAutocompleteMatches_def Let_def)
qed

text \<open>
  Claim C1. Whatever results are stored, the list of matches that
  \<^verbatim>\<open>ConvertResultsToAutocompleteMatches\<close> leaves behind has at most \<open>kMaxMatches + 1\<close>
  entries; and under the preconditions of a pass the function does return.
\<close>

theorem C1_match_count:
  "(ConvertResultsToAutocompleteMatches env st = Inr st' \<longrightarrow>
      length (m_matches st') \<le> kMaxMatches env + 1) \<and>
   (pass_preconditions st \<longrightarrow>
      (\<exists>st''. ConvertResultsToAutocompleteMatches env st = Inr st'' \<and>
             length (m_matches st'') \<le> kMaxMatches env + 1))"
proof -
  have bound: "length (m_matches s') \<le> kMaxMatches env + 1"
    if "ConvertResultsToAutocompleteMatches env st = Inr s'" for s'
    using that length_SortAndCull [of env]
    by (auto simp add: ConvertResultsToAutocompleteMatches_def ebind_eq_Inr Let_def
          UpdateStarredStateOfMatches_def)
  show ?thesis
  proof (intro conjI impI)
    assume "ConvertResultsToAutocompleteMatches env st = Inr st'"
    then show "length (m_matches st') \<le> kMaxMatches env + 1" by (rule bound)
  next
    assume "pass_preconditions st"
    from ConvertResults_returns [OF this] obtain s' where
      "ConvertResultsToAutocompleteMatches env st = Inr s'" ..
    with bound [OF this]
    show "\<exists>st''. ConvertResultsToAutocompleteMatches env st = Inr st'' \<and>
             length (m_matches st'') \<le> kMaxMatches env + 1"
      by blast
  qed
qed

theorem C1_match_count_witness:
  "pass_preconditions crowded_state \<and>
   (\<exists>st'. ConvertResultsToAutocompleteMatches example_env crowded_state = Inr st' \<and>
          length (m_matches st') = 4 \<and>
          length (m_matches st') \<le> kMaxMatches example_env + 1)"
  using C1_match_count [of example_env crowded_state]
  by (simp add: crowded_state_def pass_preconditions_def eval_defs)

subsection \<open>Malformed responses\<close>

text \<open>
  A response that is not a list, is too short, does not repeat the input text or has no
  list of suggestions is refused before anything is stored.
\<close>

lemma ParseSuggestResults_refused:
  "(\<And>vs. root_val \<noteq> ListValue vs) \<Longrightarrow>
     ParseSuggestResults env root_val k t st = (False, st)"
  "length vs < 2 \<Longrightarrow> ParseSuggestResults env (ListValue vs) k t st = (False, st)"
  "GetAsString (vs ! 0) \<noteq> Some t \<Longrightarrow>
     ParseSuggestResults env (ListValue vs) k t st = (False, st)"
  "as_list (vs ! 1) = None \<Longrightarrow>
     ParseSuggestResults env (ListValue vs) k t st = (False, st)"
  by (cases root_val)
     (auto simp add: ParseSuggestResults_def ListValue_Get_def split: option.splits)

text \<open>
  A suggestion that is not a string ends the loop with failure, and what the loop has
  stored before it stays.
\<close>

lemma parse_result_list_stops:
  "GetAsString bad = None \<Longrightarrow>
     parse_result_list env k tys ds i (pre @ bad # post) st =
       (False, snd (parse_result_list env k tys ds i pre st))"
proof (induction pre arbitrary: i st)
  case Nil
  then show ?case by simp
next
  case (Cons v pre)
  then show ?case by (simp split: option.splits)
qed

lemma ParseSuggestResults_stops:
  assumes "GetAsString bad = None"
  shows "ParseSuggestResults env (ListValue (q # ListValue (pre @ bad # post) # rest)) k t st =
           (if GetAsString q = Some t
            then (False, snd (ParseSuggestResults env (ListValue (q # ListValue pre # rest))
                                k t st))
            else (False, st))"
  by (simp add: ParseSuggestResults_def ListValue_Get_def Let_def
        parse_result_list_stops [OF assms] split: option.splits)

text \<open>
  The parser leaves the providers, the input, the history results and the suggestions of
  the other source as they are, so the pass that follows a response returns whatever the
  response holds.
\<close>

lemma parse_result_list_frame:
  "parse_result_list env k tys ds i vs st = (ok, st') \<Longrightarrow>
     m_providers st' = m_providers st \<and> m_input st' = m_input st \<and>
     m_keyword_history_results st' = m_keyword_history_results st \<and>
     m_default_history_results st' = m_default_history_results st \<and>
     (k \<longrightarrow> m_default_suggest_results st' = m_default_suggest_results st) \<and>
     (\<not> k \<longrightarrow> m_keyword_suggest_results st' = m_keyword_suggest_results st)"
proof (induction vs arbitrary: i st)
  case Nil
  then show ?case by simp
next
  case (Cons v vs)
  then show ?case
    by (auto simp add: push_suggest_result_def add_navigation_suggestion_def
          push_navigation_result_def
        split: option.splits if_splits dest!: Cons.IH)
qed

lemma ParseSuggestResults_frame:
  "ParseSuggestResults env v k txt st = (ok, st') \<Longrightarrow>
     m_providers st' = m_providers st \<and> m_input st' = m_input st \<and>
     m_keyword_history_results st' = m_keyword_history_results st \<and>
     m_default_history_results st' = m_default_history_results st \<and>
     (k \<longrightarrow> m_default_suggest_results st' = m_default_suggest_results st) \<and>
     (\<not> k \<longrightarrow> m_keyword_suggest_results st' = m_keyword_suggest_results st)"
  by (auto simp add: ParseSuggestResults_def Let_def
      split: Value.splits option.splits if_splits dest!: parse_result_list_frame)

lemma StoreSuggestResponse_frame:
  "m_providers (StoreSuggestResponse env k ok code root_val st) = m_providers st"
  "m_input (StoreSuggestResponse env k ok code root_val st) = m_input st"
  "m_keyword_history_results (StoreSuggestResponse env k ok code root_val st) =
     m_keyword_history_results st"
  "m_default_history_results (StoreSuggestResponse env k ok code root_val st) =
     m_default_history_results st"
  "k \<Longrightarrow> m_default_suggest_results (StoreSuggestResponse env k ok code root_val st) =
     m_default_suggest_results st"
  "\<not> k \<Longrightarrow> m_keyword_suggest_results (StoreSuggestResponse env k ok code root_val st) =
     m_keyword_suggest_results st"
  by (auto simp add: StoreSuggestResponse_def
      split: option.splits prod.splits dest!: ParseSuggestResults_frame)

lemma OnURLFetchComplete_returns:
  assumes "fetch_preconditions source st"
  shows "\<exists>st'. OnURLFetchComplete env source ok code root_val st = Inr st'"
proof -
  define st1 where "st1 = st\<lparr>m_suggest_results_pending := m_suggest_results_pending st - 1\<rparr>"
  define k where "k = is_keyword_source source st1"
  define st2 where "st2 = StoreSuggestResponse env k ok code root_val st1"
  have k: "k = is_keyword_source source st"
    by (simp add: k_def st1_def is_keyword_source_def)
  have "pass_preconditions st2"
  proof (cases k)
    case True
    with assms k show ?thesis
      by (simp add: fetch_preconditions_def pass_preconditions_def st2_def
            StoreSuggestResponse_frame st1_def)
  next
    case False
    with assms k show ?thesis
      by (simp add: fetch_preconditions_def pass_preconditions_def st2_def
            StoreSuggestResponse_frame st1_def)
  qed
  from ConvertResults_returns [OF this] obtain st3 where
    "ConvertResultsToAutocompleteMatches env st2 = Inr st3" ..
  with assms show ?thesis
    by (simp add: OnURLFetchComplete_def Let_def fetch_preconditions_def st2_def k_def
          st1_def)
qed

text \<open>
  The pass does not read \<^verbatim>\<open>have_suggest_results_\<close>: with the flag changed it does the
  same and leaves the flag as it finds it.
\<close>

lemma have_suggest_results_fields:
  "m_input (st\<lparr>m_have_suggest_results := b\<rparr>) = m_input st"
  "m_keyword_input_text (st\<lparr>m_have_suggest_results := b\<rparr>) = m_keyword_input_text st"
  "m_providers (st\<lparr>m_have_suggest_results := b\<rparr>) = m_providers st"
  by simp_all

lemma have_suggest_results_unread:
  "CalculateRelevanceForWhatYouTyped (st\<lparr>m_have_suggest_results := b\<rparr>) =
     CalculateRelevanceForWhatYouTyped st"
  "CalculateRelevanceForHistory env (st\<lparr>m_have_suggest_results := b\<rparr>) t k =
     CalculateRelevanceForHistory env st t k"
  "CalculateRelevanceForSuggestion env (st\<lparr>m_have_suggest_results := b\<rparr>) n i k =
     CalculateRelevanceForSuggestion env st n i k"
  "CalculateRelevanceForNavigation env (st\<lparr>m_have_suggest_results := b\<rparr>) n i k =
     CalculateRelevanceForNavigation env st n i k"
  "QueryToMatch env (st\<lparr>m_have_suggest_results := b\<rparr>) q r ty a k =
     QueryToMatch env st q r ty a k"
  "NavigationToMatch env (st\<lparr>m_have_suggest_results := b\<rparr>) nav r k =
     NavigationToMatch env st nav r k"
  by (simp_all only: CalculateRelevanceForWhatYouTyped_def CalculateRelevanceForHistory_def
        CalculateRelevanceForSuggestion_def CalculateRelevanceForNavigation_def
        history_base_score_def suggestion_base_score_def QueryToMatch_def
        NavigationToMatch_def have_suggest_results_fields)

lemma AddMatchToMap_unread:
  "AddMatchToMap env (st\<lparr>m_have_suggest_results := b\<rparr>) q r ty a k mm =
     AddMatchToMap env st q r ty a k mm"
  by (simp add: AddMatchToMap_def have_suggest_results_unread)

lemma ConvertResultsToMatchMap_unread:
  "ConvertResultsToMatchMap env (st\<lparr>m_have_suggest_results := b\<rparr>) =
     ConvertResultsToMatchMap env st"
  by (simp add: ConvertResultsToMatchMap_def AddHistoryResultsToMap_def
        AddSuggestResultsToMap_def AddMatchToMap_unread have_suggest_results_unread Let_def
      cong: if_cong)

lemma AddNavigationResultsToMatches_unread:
  "AddNavigationResultsToMatches env ns k (st\<lparr>m_have_suggest_results := b\<rparr>) =
     map_sum (\<lambda>e. e) (\<lambda>s. s\<lparr>m_have_suggest_results := b\<rparr>)
       (AddNavigationResultsToMatches env ns k st)"
proof (cases ns)
  case Nil
  then show ?thesis by (simp add: AddNavigationResultsToMatches_def)
next
  case (Cons front rest)
  define n where "n = (if k then length (m_keyword_navigation_results st)
                       else length (m_default_navigation_results st))"
  show ?thesis
  proof (cases "CalculateRelevanceForNavigation env st n 0 k")
    case (Inl e)
    with Cons show ?thesis
      unfolding n_def
      by (cases k) (simp_all add: AddNavigationResultsToMatches_def
                      have_suggest_results_unread)
  next
    case (Inr rel)
    with Cons show ?thesis
      unfolding n_def
      by (cases k) (simp_all add: AddNavigationResultsToMatches_def
                      have_suggest_results_unread)
  qed
qed

lemma CombinedMatches_unread:
  "CombinedMatches env (st\<lparr>m_have_suggest_results := b\<rparr>) =
     map_sum (\<lambda>e. e) (\<lambda>s. s\<lparr>m_have_suggest_results := b\<rparr>) (CombinedMatches env st)"
proof (cases "ConvertResultsToMatchMap env st")
  case (Inl e)
  then show ?thesis
    by (simp add: CombinedMatches_def ConvertResultsToMatchMap_unread)
next
  case (Inr mm)
  have u: "st\<lparr>m_have_suggest_results := b, m_matches := map snd mm\<rparr> =
           st\<lparr>m_matches := map snd mm, m_have_suggest_results := b\<rparr>"
    by simp
  show ?thesis
  proof (cases "AddNavigationResultsToMatches env (m_keyword_navigation_results st) True
                  (st\<lparr>m_matches := map snd mm\<rparr>)")
    case (Inl e)
    with Inr show ?thesis
      by (simp add: CombinedMatches_def ConvertResultsToMatchMap_unread u
            AddNavigationResultsToMatches_unread)
  next
    case st0: (Inr st0)
    with Inr show ?thesis
      by (simp add: CombinedMatches_def ConvertResultsToMatchMap_unread u
            AddNavigationResultsToMatches_unread)
  qed
qed

lemma ConvertResults_unread:
  "ConvertResultsToAutocompleteMatches env (st\<lparr>m_have_suggest_results := b\<rparr>) =
     map_sum (\<lambda>e. e) (\<lambda>s. s\<lparr>m_have_suggest_results := b\<rparr>)
       (ConvertResultsToAutocompleteMatches env st)"
  by (cases "CombinedMatches env st")
     (simp_all add: ConvertResultsToAutocompleteMatches_def CombinedMatches_unread Let_def)

text \<open>
  A response with a suggestion that is not a string is stored as the response cut in
  front of that suggestion is, but for the flag; and so the passes that follow differ in
  the flag only.
\<close>

lemma StoreSuggestResponse_stops:
  assumes "GetAsString bad = None"
  shows "StoreSuggestResponse env k True 200
           (Some (ListValue (q # ListValue (pre @ bad # post) # rest))) st =
         (StoreSuggestResponse env k True 200
            (Some (ListValue (q # ListValue pre # rest))) st)
           \<lparr>m_have_suggest_results := False\<rparr>"
proof -
  define t where "t = (if k then m_keyword_input_text st else input_text (m_input st))"
  obtain ok st' where p: "ParseSuggestResults env (ListValue (q # ListValue pre # rest)) k t st
      = (ok, st')"
    by (cases "ParseSuggestResults env (ListValue (q # ListValue pre # rest)) k t st")
  show ?thesis
  proof (cases "GetAsString q = Some t")
    case True
    with ParseSuggestResults_stops [OF assms, of env q pre post rest k t st] p
    show ?thesis by (simp add: StoreSuggestResponse_def t_def [symmetric])
  next
    case False
    then have "ParseSuggestResults env (ListValue (q # ListValue pre # rest)) k t st
        = (False, st)"
      using ParseSuggestResults_refused(3) [of "q # ListValue pre # rest" t env k st]
      by simp
    with False ParseSuggestResults_stops [OF assms, of env q pre post rest k t st]
    show ?thesis by (simp add: StoreSuggestResponse_def t_def [symmetric])
  qed
qed

lemma OnURLFetchComplete_stops:
  assumes "GetAsString bad = None"
  shows "OnURLFetchComplete env source True 200
           (Some (ListValue (q # ListValue (pre @ bad # post) # rest))) st =
         map_sum (\<lambda>e. e) (\<lambda>s. s\<lparr>m_have_suggest_results := False\<rparr>)
           (OnURLFetchComplete env source True 200
              (Some (ListValue (q # ListValue pre # rest))) st)"
proof -
  define st1 where "st1 = st\<lparr>m_suggest_results_pending := m_suggest_results_pending st - 1\<rparr>"
  define k where "k = is_keyword_source source st1"
  define st2 where "st2 = StoreSuggestResponse env k True 200
                            (Some (ListValue (q # ListValue pre # rest))) st1"
  note store = StoreSuggestResponse_stops [OF assms, of env k q pre post rest st1]
  show ?thesis
  proof (cases "ConvertResultsToAutocompleteMatches env st2")
    case (Inl e)
    then show ?thesis
      by (simp add: OnURLFetchComplete_def Let_def st1_def [symmetric] k_def [symmetric]
            store st2_def [symmetric] ConvertResults_unread)
  next
    case (Inr st3)
    then show ?thesis
      by (simp add: OnURLFetchComplete_def Let_def st1_def [symmetric] k_def [symmetric]
            store st2_def [symmetric] ConvertResults_unread suggest_results_of_def)
  qed
qed

lemma malformed_response_parse:
  "ParseSuggestResults example_env malformed_response False ''x''
     (history_done_state\<lparr>m_suggest_results_pending := 0\<rparr>) =
   (False, history_done_state\<lparr>m_suggest_results_pending := 0,
                               m_default_suggest_results := [''xyz'']\<rparr>)"
  by (simp add: malformed_response_def ParseSuggestResults_def ListValue_Get_def
        is_navigation_type_def suggest_results_of_def push_suggest_result_def
        history_done_state_def history_callback_state_def example_state_simps
        example_env_simps)

lemma malformed_response_store:
  "StoreSuggestResponse example_env False True 200 (Some malformed_response)
     (history_done_state\<lparr>m_suggest_results_pending := 0\<rparr>) =
   history_done_state\<lparr>m_suggest_results_pending := 0,
                       m_default_suggest_results := [''xyz''],
                       m_have_suggest_results := False\<rparr>"
proof -
  have "input_text (m_input (history_done_state\<lparr>m_suggest_results_pending := 0\<rparr>)) = ''x''"
    by (simp add: history_done_state_def history_callback_state_def example_state_simps
          example_input_simps)
  then show ?thesis
    by (simp add: StoreSuggestResponse_def malformed_response_parse)
qed

lemma malformed_response_convert:
  "map_sum (\<lambda>e. e)
     (\<lambda>s. (m_have_suggest_results s, map (\<lambda>m. (contents m, match_type m)) (m_matches s),
           m_default_suggest_results s, listener_updates s))
     (ConvertResultsToAutocompleteMatches example_env
        (history_done_state\<lparr>m_suggest_results_pending := 0,
                            m_default_suggest_results := [''xyz''],
                            m_have_suggest_results := False\<rparr>)) =
   Inr (False, [(''x'', SEARCH_WHAT_YOU_TYPED), (''xyz'', SEARCH_SUGGEST)], [''xyz''],
        [False])"
  by (simp add: history_done_state_def history_callback_state_def eval_defs)

text \<open>
  Claim C9, as the code has it. For a response that is malformed, \<^verbatim>\<open>ParseSuggestResults\<close>
  returns failure and nothing aborts: under the conditions of a fetch
  \<^verbatim>\<open>OnURLFetchComplete\<close> returns for every response. A response that is not a list, has
  fewer than two elements, does not repeat the input text or has no list of suggestions
  leaves the stored results as they are. A suggestion list with an element that is not a
  string leaves stored exactly what the same response cut in front of that element
  stores, and the pass that follows is the pass for the cut response: it ends in the same
  state, with the same matches and the same report to the listener, but for
  \<^verbatim>\<open>have_suggest_results_\<close>, which is false.
\<close>

theorem C9_malformed_response:
  "((\<forall>vs. root_val \<noteq> ListValue vs) \<longrightarrow>
      ParseSuggestResults env root_val k t st = (False, st)) \<and>
   (length vs < 2 \<or> GetAsString (vs ! 0) \<noteq> Some t \<or> as_list (vs ! 1) = None \<longrightarrow>
      ParseSuggestResults env (ListValue vs) k t st = (False, st)) \<and>
   (GetAsString bad = None \<longrightarrow>
      ParseSuggestResults env (ListValue (StringValue t # ListValue (pre @ bad # post) # rest))
        k t st =
      (False, snd (ParseSuggestResults env (ListValue (StringValue t # ListValue pre # rest))
                     k t st)) \<and>
      OnURLFetchComplete env source True 200
        (Some (ListValue (StringValue t # ListValue (pre @ bad # post) # rest))) st =
      map_sum (\<lambda>e. e) (\<lambda>s. s\<lparr>m_have_suggest_results := False\<rparr>)
        (OnURLFetchComplete env source True 200
           (Some (ListValue (StringValue t # ListValue pre # rest))) st)) \<and>
   (fetch_preconditions source st \<longrightarrow>
      (\<exists>st'. OnURLFetchComplete env source ok code root_opt st = Inr st'))"
proof (intro conjI impI)
  assume "\<forall>vs. root_val \<noteq> ListValue vs"
  then show "ParseSuggestResults env root_val k t st = (False, st)"
    by (simp add: ParseSuggestResults_refused(1))
next
  assume "length vs < 2 \<or> GetAsString (vs ! 0) \<noteq> Some t \<or> as_list (vs ! 1) = None"
  then show "ParseSuggestResults env (ListValue vs) k t st = (False, st)"
    by (elim disjE) (simp_all add: ParseSuggestResults_refused(2-4))
next
  assume "GetAsString bad = None"
  from ParseSuggestResults_stops [OF this, of env "StringValue t" pre post rest k t st]
  show "ParseSuggestResults env (ListValue (StringValue t # ListValue (pre @ bad # post) # rest))
        k t st =
      (False, snd (ParseSuggestResults env (ListValue (StringValue t # ListValue pre # rest))
                     k t st))"
    by simp
next
  assume "GetAsString bad = None"
  then show "OnURLFetchComplete env source True 200
        (Some (ListValue (StringValue t # ListValue (pre @ bad # post) # rest))) st =
      map_sum (\<lambda>e. e) (\<lambda>s. s\<lparr>m_have_suggest_results := False\<rparr>)
        (OnURLFetchComplete env source True 200
           (Some (ListValue (StringValue t # ListValue pre # rest))) st)"
    by (rule OnURLFetchComplete_stops)
next
  assume "fetch_preconditions source st"
  then show "\<exists>st'. OnURLFetchComplete env source ok code root_opt st = Inr st'"
    by (rule OnURLFetchComplete_returns)
qed

theorem C9_malformed_response_witness:
  "(\<forall>vs. NullValue \<noteq> ListValue vs) \<and>
   ParseSuggestResults example_env NullValue False ''x'' history_done_state =
     (False, history_done_state) \<and>
   length ([] :: Value list) < 2 \<and>
   ParseSuggestResults example_env (ListValue []) False ''x'' history_done_state =
     (False, history_done_state) \<and>
   GetAsString (IntegerValue 42) = None \<and>
   fetch_preconditions 0 history_done_state \<and>
   ParseSuggestResults example_env malformed_response False ''x''
     (history_done_state\<lparr>m_suggest_results_pending := 0\<rparr>) =
   (False, history_done_state\<lparr>m_suggest_results_pending := 0,
                               m_default_suggest_results := [''xyz'']\<rparr>) \<and>
   OnURLFetchComplete example_env 0 True 200 (Some malformed_response) history_done_state =
     map_sum (\<lambda>e. e) (\<lambda>s. s\<lparr>m_have_suggest_results := False\<rparr>)
       (OnURLFetchComplete example_env 0 True 200
          (Some (ListValue [StringValue ''x'', ListValue [StringValue ''xyz'']]))
          history_done_state) \<and>
   (\<exists>st'. OnURLFetchComplete example_env 0 True 200 (Some malformed_response)
            history_done_state = Inr st')"
proof -
  have p: "fetch_preconditions 0 history_done_state"
    by (simp add: fetch_preconditions_def pass_preconditions_def is_keyword_source_def
          history_done_state_def history_callback_state_def eval_defs)
  note h = C9_malformed_response [of _ example_env False "''x''"
      "history_done_state\<lparr>m_suggest_results_pending := 0\<rparr>" "[]" "IntegerValue 42"
      "[StringValue ''xyz'']" "[]" "[]"]
  note f = C9_malformed_response [of NullValue example_env False "''x''" history_done_state
      "[]" "IntegerValue 42" "[StringValue ''xyz'']" "[]" "[]" 0 True 200
      "Some malformed_response"]
  note g = f [THEN conjunct2, THEN conjunct2, THEN conjunct2, rule_format, OF p]
  have n: "GetAsString (IntegerValue 42) = None" by simp
  from f [THEN conjunct2, THEN conjunct2, THEN conjunct1, rule_format, OF n, THEN conjunct2]
  have o: "OnURLFetchComplete example_env 0 True 200 (Some malformed_response)
             history_done_state =
           map_sum (\<lambda>e. e) (\<lambda>s. s\<lparr>m_have_suggest_results := False\<rparr>)
             (OnURLFetchComplete example_env 0 True 200
                (Some (ListValue [StringValue ''x'', ListValue [StringValue ''xyz'']]))
                history_done_state)"
    by (simp add: malformed_response_def)
  from f have r: "ParseSuggestResults example_env NullValue False ''x'' history_done_state =
      (False, history_done_state)"
    "ParseSuggestResults example_env (ListValue []) False ''x'' history_done_state =
      (False, history_done_state)"
    by simp_all
  have q: "ParseSuggestResults example_env
        (ListValue [StringValue ''x'', ListValue [StringValue ''xyz'']]) False ''x''
        (history_done_state\<lparr>m_suggest_results_pending := 0\<rparr>) =
      (True, history_done_state\<lparr>m_suggest_results_pending := 0,
                               m_default_suggest_results := [''xyz'']\<rparr>)"
    by (simp add: ParseSuggestResults_def ListValue_Get_def
        is_navigation_type_def suggest_results_of_def push_suggest_result_def
        history_done_state_def history_callback_state_def example_state_simps
        example_env_simps)
  from h [THEN conjunct2, THEN conjunct2, THEN conjunct1, rule_format, OF n, THEN conjunct1] q
  have "ParseSuggestResults example_env malformed_response False ''x''
     (history_done_state\<lparr>m_suggest_results_pending := 0\<rparr>) =
   (False, history_done_state\<lparr>m_suggest_results_pending := 0,
                               m_default_suggest_results := [''xyz'']\<rparr>)"
    by (simp add: malformed_response_def)
  with p g r o n show ?thesis by simp
qed

text \<open>
  The claim as given goes on: no suggestion of a malformed response appears in the
  results. For the response \<^verbatim>\<open>["x", ["xyz", 42]]\<close> to the input \<open>x\<close> the parser returns
  failure with \<open>xyz\<close> stored, \<^verbatim>\<open>have_suggest_results_\<close> becomes false, and the pass that
  follows shows \<open>xyz\<close> as a suggestion and reports an update to the listener.
\<close>

theorem C9_malformed_response_counterexample:
  "ParseSuggestResults example_env malformed_response False ''x''
     (history_done_state\<lparr>m_suggest_results_pending := 0\<rparr>) =
   (False, history_done_state\<lparr>m_suggest_results_pending := 0,
                               m_default_suggest_results := [''xyz'']\<rparr>) \<and>
   map_sum (\<lambda>e. e)
     (\<lambda>s. (m_have_suggest_results s, map (\<lambda>m. (contents m, match_type m)) (m_matches s),
           listener_updates s))
     (OnURLFetchComplete example_env 0 True 200 (Some malformed_response)
        history_done_state) =
   Inr (False, [(''x'', SEARCH_WHAT_YOU_TYPED), (''xyz'', SEARCH_SUGGEST)], [False, True])"
proof
  show "ParseSuggestResults example_env malformed_response False ''x''
     (history_done_state\<lparr>m_suggest_results_pending := 0\<rparr>) =
   (False, history_done_state\<lparr>m_suggest_results_pending := 0,
                               m_default_suggest_results := [''xyz'']\<rparr>)"
    by (rule malformed_response_parse)
  have a: "\<not> m_done history_done_state"
    "m_suggest_results_pending history_done_state = 1"
    "is_keyword_source 0 (history_done_state\<lparr>m_suggest_results_pending := 0\<rparr>) = False"
    by (simp_all add: history_done_state_def history_callback_state_def example_state_simps
          is_keyword_source_def)
  obtain r where r: "ConvertResultsToAutocompleteMatches example_env
        (history_done_state\<lparr>m_suggest_results_pending := 0,
                            m_default_suggest_results := [''xyz''],
                            m_have_suggest_results := False\<rparr>) = r"
    by simp
  from malformed_response_convert [unfolded r] obtain s where
    s: "r = Inr s" "m_have_suggest_results s = False"
       "map (\<lambda>m. (contents m, match_type m)) (m_matches s) =
          [(''x'', SEARCH_WHAT_YOU_TYPED), (''xyz'', SEARCH_SUGGEST)]"
       "m_default_suggest_results s = [''xyz'']" "listener_updates s = [False]"
    by (cases r) auto
  show "map_sum (\<lambda>e. e)
     (\<lambda>s. (m_have_suggest_results s, map (\<lambda>m. (contents m, match_type m)) (m_matches s),
           listener_updates s))
     (OnURLFetchComplete example_env 0 True 200 (Some malformed_response)
        history_done_state) =
   Inr (False, [(''x'', SEARCH_WHAT_YOU_TYPED), (''xyz'', SEARCH_SUGGEST)], [False, True])"
    by (simp add: OnURLFetchComplete_def a malformed_response_store r s
          suggest_results_of_def)
qed

end
